theory Spec2Isabelle
  imports Main "HOL-Library.Sublist"
begin

unbundle bit_operations_syntax

section \<open>Errors\<close>

text \<open>
  Modelled from the spec: the table of error codes (svn_error_codes.h) and the macro
  SVN_ERROR_IN_CATEGORY (svn_error.h) are not part of the sources. The codes that
  fs_fs.c names are kept symbolic; \<open>Errno_malfunc n\<close> stands for the remaining codes
  of the malfunction category and \<open>Errno_other n\<close> for every code outside it (I/O,
  SQLite, cancellation, ...).
\<close>

datatype svn_errno =
    SVN_ERR_FS_CORRUPT
  | SVN_ERR_FS_TXN_OUT_OF_DATE
  | SVN_ERR_FS_NO_SUCH_REVISION
  | SVN_ERR_UNSUPPORTED_FEATURE
  | SVN_ERR_RA_UUID_MISMATCH
  | SVN_ERR_ASSERTION_FAIL
  | APR_EEXIST
  | APR_ENOENT
  | Errno_malfunc nat
  | Errno_other nat

record svn_error_t =
  apr_err :: svn_errno
  message :: string

definition svn_error_create :: "svn_errno \<Rightarrow> string \<Rightarrow> svn_error_t" where
  "svn_error_create code msg = \<lparr>apr_err = code, message = msg\<rparr>"

text \<open>
  Modelled from the spec: SVN_ERROR_IN_CATEGORY (err, SVN_ERR_MALFUNC_CATEGORY_START),
  the test for "lies in the malfunction category". The assertion failure raised by
  SVN_ERR_ASSERT belongs to that category.
\<close>

fun SVN_ERROR_IN_MALFUNC_CATEGORY :: "svn_errno \<Rightarrow> bool" where
  "SVN_ERROR_IN_MALFUNC_CATEGORY SVN_ERR_ASSERTION_FAIL = True"
| "SVN_ERROR_IN_MALFUNC_CATEGORY (Errno_malfunc n) = True"
| "SVN_ERROR_IN_MALFUNC_CATEGORY c = False"

section \<open>Revision numbers and node-revision ids\<close>

type_synonym svn_revnum_t = int

text \<open>
  Modelled from the spec: svn_types.h is not part of the sources. A revision number
  is a non-negative integer; SVN_INVALID_REVNUM, the value that stands for no
  revision, is a negative one and is taken as -1.
\<close>

definition SVN_INVALID_REVNUM :: svn_revnum_t where
  "SVN_INVALID_REVNUM = -1"

definition SVN_IS_VALID_REVNUM :: "svn_revnum_t \<Rightarrow> bool" where
  "SVN_IS_VALID_REVNUM n = (0 \<le> n)"

text \<open>
  Modelled from the spec: id.h and id.c are not part of the sources. A node-revision
  id is the composite of a node id, a copy id and an origin, the origin being a
  transaction location or a revision location (revision and byte offset).
\<close>

datatype id_origin =
    Txn_location string
  | Rev_location svn_revnum_t int

record svn_fs_id_t =
  node_id :: string
  copy_id :: string
  origin :: id_origin

definition svn_fs_fs__id_rev :: "svn_fs_id_t \<Rightarrow> svn_revnum_t" where
  "svn_fs_fs__id_rev i =
     (case origin i of Rev_location r off \<Rightarrow> r | Txn_location t \<Rightarrow> SVN_INVALID_REVNUM)"

definition svn_fs_fs__id_txn_id :: "svn_fs_id_t \<Rightarrow> string option" where
  "svn_fs_fs__id_txn_id i =
     (case origin i of Rev_location r off \<Rightarrow> None | Txn_location t \<Rightarrow> Some t)"

text \<open>
  Modelled from the spec: svn_fs_fs__id_eq compares two ids component by component.
  The first argument is the id stored in a folded entry, which the C code keeps as a
  pointer; a stored null pointer equals no id.
\<close>

definition svn_fs_fs__id_eq :: "svn_fs_id_t option \<Rightarrow> svn_fs_id_t \<Rightarrow> bool" where
  "svn_fs_fs__id_eq a b = (a = Some b)"

section \<open>Changed-path records and their folding\<close>

datatype svn_fs_path_change_kind_t =
    svn_fs_path_change_modify
  | svn_fs_path_change_add
  | svn_fs_path_change_delete
  | svn_fs_path_change_replace
  | svn_fs_path_change_reset

datatype svn_node_kind_t = svn_node_none | svn_node_file | svn_node_dir | svn_node_unknown

text \<open>
  One record of a changes file (change_t of fs.h, which is not part of the sources;
  the fields are those fold_change reads). A null node-revision id or copyfrom path is
  \<open>None\<close>.
\<close>

record change_t =
  path :: string
  noderev_id :: "svn_fs_id_t option"
  kind :: svn_fs_path_change_kind_t
  ch_text_mod :: bool
  ch_prop_mod :: bool
  ch_node_kind :: svn_node_kind_t
  ch_copyfrom_rev :: svn_revnum_t
  ch_copyfrom_path :: "string option"

text \<open>
  The folded, public change of one path (svn_fs_path_change2_t of svn_fs.h). In
  change_t the fields text_mod, prop_mod, node_kind, copyfrom_rev and copyfrom_path
  bear the same names as here; the record above prefixes them with \<open>ch_\<close>.
\<close>

record svn_fs_path_change2_t =
  node_rev_id :: "svn_fs_id_t option"
  change_kind :: svn_fs_path_change_kind_t
  text_mod :: bool
  prop_mod :: bool
  node_kind :: svn_node_kind_t
  copyfrom_known :: bool
  copyfrom_rev :: svn_revnum_t
  copyfrom_path :: "string option"

type_synonym changes_hash = "string \<rightharpoonup> svn_fs_path_change2_t"

text \<open>
  The value stored in the copyfrom cache: the empty string, or the result of
  formatting "%ld %s" with a revision and a path, kept as its two arguments.
\<close>

datatype copyfrom_string = Copyfrom_empty | Copyfrom_fmt svn_revnum_t "string option"

type_synonym copyfrom_hash = "string \<rightharpoonup> copyfrom_string"

text \<open>The four sanity checks of fold_change on an existing entry, in source order.\<close>

definition fold_sanity :: "svn_fs_path_change2_t \<Rightarrow> change_t \<Rightarrow> svn_error_t option" where
  "fold_sanity old_change change =
    (if noderev_id change = None \<and> kind change \<noteq> svn_fs_path_change_reset
     then Some (svn_error_create SVN_ERR_FS_CORRUPT ''Missing required node revision ID'')
     else if (case noderev_id change of None \<Rightarrow> False
              | Some i \<Rightarrow> \<not> svn_fs_fs__id_eq (node_rev_id old_change) i)
             \<and> change_kind old_change \<noteq> svn_fs_path_change_delete
     then Some (svn_error_create SVN_ERR_FS_CORRUPT
                  ''Invalid change ordering: new node revision ID without delete'')
     else if change_kind old_change = svn_fs_path_change_delete
             \<and> \<not> (kind change = svn_fs_path_change_replace
                   \<or> kind change = svn_fs_path_change_reset
                   \<or> kind change = svn_fs_path_change_add)
     then Some (svn_error_create SVN_ERR_FS_CORRUPT
                  ''Invalid change ordering: non-add change on deleted path'')
     else if kind change = svn_fs_path_change_add
             \<and> change_kind old_change \<noteq> svn_fs_path_change_delete
             \<and> change_kind old_change \<noteq> svn_fs_path_change_reset
     then Some (svn_error_create SVN_ERR_FS_CORRUPT
                  ''Invalid change ordering: add change on preexisting path'')
     else None)"

text \<open>The switch of fold_change that merges a change into an existing entry;
  \<open>None\<close> is the null pointer that removes the path from the hash.\<close>

fun fold_merge :: "svn_fs_path_change2_t \<Rightarrow> change_t \<Rightarrow> svn_fs_path_change2_t option" where
  "fold_merge old_change change =
    (case kind change of
       svn_fs_path_change_reset \<Rightarrow> None
     | svn_fs_path_change_delete \<Rightarrow>
         (if change_kind old_change = svn_fs_path_change_add then None
          else Some (old_change\<lparr>change_kind := svn_fs_path_change_delete,
                                text_mod := ch_text_mod change,
                                prop_mod := ch_prop_mod change,
                                copyfrom_rev := SVN_INVALID_REVNUM,
                                copyfrom_path := None\<rparr>))
     | svn_fs_path_change_add \<Rightarrow>
         Some (old_change\<lparr>change_kind := svn_fs_path_change_replace,
                           node_rev_id := noderev_id change,
                           text_mod := ch_text_mod change,
                           prop_mod := ch_prop_mod change,
                           copyfrom_rev :=
                             (if ch_copyfrom_rev change = SVN_INVALID_REVNUM
                              then SVN_INVALID_REVNUM else ch_copyfrom_rev change),
                           copyfrom_path :=
                             (if ch_copyfrom_rev change = SVN_INVALID_REVNUM
                              then None else ch_copyfrom_path change)\<rparr>)
     | svn_fs_path_change_replace \<Rightarrow>
         Some (old_change\<lparr>change_kind := svn_fs_path_change_replace,
                           node_rev_id := noderev_id change,
                           text_mod := ch_text_mod change,
                           prop_mod := ch_prop_mod change,
                           copyfrom_rev :=
                             (if ch_copyfrom_rev change = SVN_INVALID_REVNUM
                              then SVN_INVALID_REVNUM else ch_copyfrom_rev change),
                           copyfrom_path :=
                             (if ch_copyfrom_rev change = SVN_INVALID_REVNUM
                              then None else ch_copyfrom_path change)\<rparr>)
     | svn_fs_path_change_modify \<Rightarrow>
         Some (old_change\<lparr>text_mod := (if ch_text_mod change then True else text_mod old_change),
                           prop_mod := (if ch_prop_mod change then True else prop_mod old_change)\<rparr>))"

text \<open>The else branch of fold_change: the public change made from a record whose
  path is new to the hash.\<close>

definition fold_new :: "change_t \<Rightarrow> svn_fs_path_change2_t" where
  "fold_new change =
     \<lparr>node_rev_id = noderev_id change,
      change_kind = kind change,
      text_mod = ch_text_mod change,
      prop_mod = ch_prop_mod change,
      node_kind = svn_node_none,
      copyfrom_known = True,
      copyfrom_rev = (if ch_copyfrom_rev change \<noteq> SVN_INVALID_REVNUM
                      then ch_copyfrom_rev change else SVN_INVALID_REVNUM),
      copyfrom_path = (if ch_copyfrom_rev change \<noteq> SVN_INVALID_REVNUM
                       then ch_copyfrom_path change else None)\<rparr>"

text \<open>The update of the copyfrom cache at the end of fold_change: a null string
  removes the key.\<close>

definition fold_copyfrom :: "svn_fs_path_change2_t option \<Rightarrow> copyfrom_string option" where
  "fold_copyfrom new_change =
     (case new_change of
        None \<Rightarrow> None
      | Some n \<Rightarrow> (if SVN_IS_VALID_REVNUM (copyfrom_rev n)
                   then Some (Copyfrom_fmt (copyfrom_rev n) (copyfrom_path n))
                   else Some Copyfrom_empty))"

definition fold_change ::
  "changes_hash \<Rightarrow> change_t \<Rightarrow> copyfrom_hash option
     \<Rightarrow> svn_error_t + (changes_hash \<times> copyfrom_hash option)" where
  "fold_change changes change copyfrom_cache =
    (case (case changes (path change) of
             Some old_change \<Rightarrow>
               (case fold_sanity old_change change of
                  Some err \<Rightarrow> Inl err
                | None \<Rightarrow> Inr (fold_merge old_change change))
           | None \<Rightarrow> Inr (Some (fold_new change))) of
       Inl err \<Rightarrow> Inl err
     | Inr new_change \<Rightarrow>
         (let new_change = map_option (\<lambda>n. n\<lparr>node_kind := ch_node_kind change\<rparr>) new_change
          in Inr (changes(path change := new_change),
                  map_option (\<lambda>cache. cache(path change := fold_copyfrom new_change))
                    copyfrom_cache)))"

text \<open>
  Modelled from the spec: svn_dirent_is_child (dirent_uri.c) is not part of the
  sources. The spec's child of a path is a path starting with that path followed by
  a slash.
\<close>

definition svn_dirent_is_child :: "string \<Rightarrow> string \<Rightarrow> bool" where
  "svn_dirent_is_child parent child = prefix (parent @ ''/'') child"

definition min_child_len :: "string \<Rightarrow> nat" where
  "min_child_len p =
     (if length p = 0 then 1
      else if last p = CHR ''/'' then length p + 1
      else length p + 2)"

text \<open>The inner loop of process_changes: every key of the hash that is long enough
  and a child of the changed path is set to null.\<close>

definition remove_children :: "string \<Rightarrow> changes_hash \<Rightarrow> changes_hash" where
  "remove_children p changed_paths =
     (\<lambda>k. if min_child_len p \<le> length k \<and> svn_dirent_is_child p k
          then None else changed_paths k)"

fun process_changes ::
  "changes_hash \<Rightarrow> copyfrom_hash option \<Rightarrow> change_t list \<Rightarrow> bool
     \<Rightarrow> svn_error_t + (changes_hash \<times> copyfrom_hash option)" where
  "process_changes changed_paths copyfrom_cache [] prefolded =
     Inr (changed_paths, copyfrom_cache)"
| "process_changes changed_paths copyfrom_cache (change # changes) prefolded =
     (case fold_change changed_paths change copyfrom_cache of
        Inl err \<Rightarrow> Inl err
      | Inr (changed_paths', copyfrom_cache') \<Rightarrow>
          process_changes
            (if (kind change = svn_fs_path_change_delete
                 \<or> kind change = svn_fs_path_change_replace) \<and> \<not> prefolded
             then remove_children (path change) changed_paths'
             else changed_paths')
            copyfrom_cache' changes prefolded)"

section \<open>Representations and node-revisions\<close>

text \<open>
  The fields of representation_t and node_revision_t (fs.h, not part of the sources)
  that the functions below read. Checksums are kept as their digests; a null pointer
  is \<open>None\<close>. The fields named size and id in the C structs are \<open>size_rep\<close> and
  \<open>id_nr\<close> here.
\<close>

record representation_t =
  md5_checksum :: "string option"
  sha1_checksum :: "string option"
  revision :: svn_revnum_t
  offset :: int
  size_rep :: int
  expanded_size :: int
  txn_id :: "string option"
  uniquifier :: "string option"

record node_revision_t =
  id_nr :: svn_fs_id_t
  predecessor_id :: "svn_fs_id_t option"
  predecessor_count :: int
  data_rep :: "representation_t option"
  prop_rep :: "representation_t option"

text \<open>The configuration kept in fs_fs_data_t, as read_config fills it in.\<close>

record fs_fs_data_t =
  rep_sharing_allowed :: bool
  deltify_directories :: bool
  deltify_properties :: bool
  max_deltification_walk :: int
  max_linear_deltification :: int

definition SVN_FS_FS_MAX_LINEAR_DELTIFICATION :: int where
  "SVN_FS_FS_MAX_LINEAR_DELTIFICATION = 16"

definition SVN_FS_FS_MAX_DELTIFICATION_WALK :: int where
  "SVN_FS_FS_MAX_DELTIFICATION_WALK = 1023"

text \<open>
  The readers of the revision store that fs_fs.c calls and that live in other files
  (cached_data.c, tree.c), taken as parameters: svn_fs_fs__get_node_revision,
  svn_fs_fs__rep_chain_length, and svn_fs_fs__revision_root followed by
  svn_fs_fs__node_id on the path "/".
\<close>

record fs_access =
  get_node_revision :: "svn_fs_id_t option \<Rightarrow> svn_error_t + node_revision_t"
  rep_chain_length :: "representation_t \<Rightarrow> svn_error_t + int"
  root_node_id :: "svn_revnum_t \<Rightarrow> svn_error_t + svn_fs_id_t"

section \<open>Arithmetic on int\<close>

text \<open>
  The predecessor count of a node-revision and the local variables of
  validate_root_noderev and choose_delta_base are of the C type int, 32 bits wide.
  \<open>int_cast x\<close> is the int that holds the value \<open>x\<close>: the result of the conversion
  (int) of a 64-bit value, and the result of an addition, subtraction or
  multiplication of ints whose exact value is \<open>x\<close>, with the wrap-around of a 32-bit
  int written out. \<open>is_int x\<close> says that \<open>x\<close> is a value of the type.
\<close>

definition int_cast :: "int \<Rightarrow> int" where
  "int_cast x = (x + 2 ^ 31) mod 2 ^ 32 - 2 ^ 31"


section \<open>Validation of the root node-revision\<close>

text \<open>The argument REV of the C function is \<open>revnum\<close> here. The two predecessor
  counts are ints and so is their difference, which is then compared with the
  difference of the two revision numbers.\<close>

definition validate_root_noderev ::
  "fs_access \<Rightarrow> node_revision_t \<Rightarrow> svn_revnum_t \<Rightarrow> svn_error_t option" where
  "validate_root_noderev fs root_noderev revnum =
    (let head_revnum = revnum - 1 in
     if \<not> 0 < revnum
     then Some (svn_error_create SVN_ERR_ASSERTION_FAIL ''rev > 0'')
     else
       (case root_node_id fs head_revnum of
          Inl err \<Rightarrow> Some err
        | Inr head_root_id \<Rightarrow>
            (case get_node_revision fs (Some head_root_id) of
               Inl err \<Rightarrow> Some err
             | Inr head_root_noderev \<Rightarrow>
                 (let head_predecessor_count = predecessor_count head_root_noderev in
                  if predecessor_count root_noderev \<noteq> -1
                     \<and> int_cast (predecessor_count root_noderev - head_predecessor_count)
                        \<noteq> revnum - head_revnum
                  then Some (svn_error_create SVN_ERR_FS_CORRUPT
                    ''predecessor count for the root node-revision is wrong'')
                  else None))))"

section \<open>Choice of the delta base\<close>

text \<open>The test made on every node-revision visited by the walk: its representation
  lives in an older revision than the node-revision itself.\<close>

definition rep_maybe_shared :: "bool \<Rightarrow> node_revision_t \<Rightarrow> bool" where
  "rep_maybe_shared props base =
     (if props
      then (case prop_rep base of None \<Rightarrow> False
            | Some r \<Rightarrow> revision r < svn_fs_fs__id_rev (id_nr base))
      else (case data_rep base of None \<Rightarrow> False
            | Some r \<Rightarrow> revision r < svn_fs_fs__id_rev (id_nr base)))"

text \<open>The while loop of choose_delta_base: \<open>count\<close> runs up to the predecessor
  count \<open>pc\<close>, and each round replaces \<open>base\<close> by its predecessor.\<close>

function walk_predecessors ::
  "fs_access \<Rightarrow> bool \<Rightarrow> int \<Rightarrow> int \<Rightarrow> node_revision_t \<Rightarrow> bool
     \<Rightarrow> svn_error_t + (node_revision_t \<times> bool)" where
  "walk_predecessors fs props pc count base maybe_shared_rep =
     (if count < pc
      then (case get_node_revision fs (predecessor_id base) of
              Inl err \<Rightarrow> Inl err
            | Inr base' \<Rightarrow>
                walk_predecessors fs props pc (count + 1) base'
                  (if rep_maybe_shared props base' then True else maybe_shared_rep))
      else Inr (base, maybe_shared_rep))"
  by pat_completeness auto
termination
  by (relation "measure (\<lambda>(fs, props, pc, count, base, shared). nat (pc - count))") auto

declare walk_predecessors.simps [simp del]

text \<open>choose_delta_base. The variables count and walk and the chain limit
  2 * (int)max_linear_deltification + 2 are computed in int.\<close>

definition choose_delta_base ::
  "fs_fs_data_t \<Rightarrow> fs_access \<Rightarrow> node_revision_t \<Rightarrow> bool
     \<Rightarrow> svn_error_t + representation_t option" where
  "choose_delta_base ffd fs noderev props =
    (if predecessor_count noderev = 0 then Inr None
     else
       (let count0 = predecessor_count noderev AND int_cast (predecessor_count noderev - 1);
            walk = int_cast (predecessor_count noderev - count0);
            count = (if walk < int_cast (max_linear_deltification ffd)
                     then int_cast (predecessor_count noderev - 1) else count0)
        in if int_cast (max_deltification_walk ffd) < walk then Inr None
           else
             (case walk_predecessors fs props (predecessor_count noderev) count noderev False of
                Inl err \<Rightarrow> Inl err
              | Inr (base, maybe_shared_rep) \<Rightarrow>
                  (case (if props then prop_rep base else data_rep base) of
                     None \<Rightarrow> Inr None
                   | Some rep \<Rightarrow>
                       (if maybe_shared_rep
                        then (case rep_chain_length fs rep of
                                Inl err \<Rightarrow> Inl err
                              | Inr chain_length \<Rightarrow>
                                  (if int_cast (2 * int_cast (max_linear_deltification ffd) + 2)
                                        \<le> chain_length
                                   then Inr None else Inr (Some rep)))
                        else Inr (Some rep))))))"

text \<open>
  The header of a representation segment (svn_fs_fs__rep_header_t of low_level.h, not
  part of the sources): PLAIN, DELTA without a base (a self-delta), or DELTA against
  a base representation.
\<close>

datatype svn_fs_fs__rep_type_t =
    svn_fs_fs__rep_plain
  | svn_fs_fs__rep_self_delta
  | svn_fs_fs__rep_delta





section \<open>Lookup of a shared representation\<close>

text \<open>
  What get_shared_rep calls outside fs_fs.c, taken as parameters:
  svn_fs_fs__get_rep_reference (the index database, keyed by the SHA-1 digest),
  svn_fs_fs__check_rep, svn_io_check_path on the file path_txn_sha1 of a transaction
  and a digest, and the reading of that file (svn_stringbuf_from_file2 followed by
  svn_fs_fs__parse_representation).
\<close>

record rep_cache_access =
  get_rep_reference :: "string option \<Rightarrow> svn_error_t + representation_t option"
  check_rep :: "representation_t \<Rightarrow> svn_error_t option"
  check_path_txn_sha1 :: "string \<Rightarrow> string option \<Rightarrow> svn_error_t + svn_node_kind_t"
  read_txn_sha1 :: "string \<Rightarrow> string option \<Rightarrow> svn_error_t + representation_t"

type_synonym reps_hash_t = "string \<rightharpoonup> representation_t"

text \<open>The first lookup of get_shared_rep, in the hash of the representations
  written so far in this revision; a null hash finds nothing.\<close>

definition reps_hash_lookup ::
  "reps_hash_t option \<Rightarrow> representation_t \<Rightarrow> representation_t option" where
  "reps_hash_lookup reps_hash rep =
     (case reps_hash of
        None \<Rightarrow> None
      | Some h \<Rightarrow> (case sha1_checksum rep of None \<Rightarrow> None | Some digest \<Rightarrow> h digest))"

text \<open>The block "try harder and consult our DB". The second component lists the
  errors handed to the warning callback of the filesystem.\<close>

definition rep_reference_lookup ::
  "rep_cache_access \<Rightarrow> representation_t
     \<Rightarrow> (svn_error_t + representation_t option) \<times> svn_error_t list" where
  "rep_reference_lookup rc rep =
     (case get_rep_reference rc (sha1_checksum rep) of
        Inr None \<Rightarrow> (Inr None, [])
      | Inr (Some old_rep) \<Rightarrow>
          (case check_rep rc old_rep of
             Some err \<Rightarrow> (Inl err, [])
           | None \<Rightarrow> (Inr (Some old_rep), []))
      | Inl err \<Rightarrow>
          (if apr_err err = SVN_ERR_FS_CORRUPT \<or> SVN_ERROR_IN_MALFUNC_CATEGORY (apr_err err)
           then (Inl err, [])
           else (Inr None, [err])))"

text \<open>The block "look for intra-revision matches": the file named with the wanted
  SHA-1 in the transaction of the representation.\<close>

definition txn_sha1_lookup ::
  "rep_cache_access \<Rightarrow> string \<Rightarrow> representation_t
     \<Rightarrow> svn_error_t + representation_t option" where
  "txn_sha1_lookup rc txn rep =
     (case check_path_txn_sha1 rc txn (sha1_checksum rep) of
        Inl err \<Rightarrow> Inl err
      | Inr kind_on_disk \<Rightarrow>
          (if kind_on_disk = svn_node_file
           then (case read_txn_sha1 rc txn (sha1_checksum rep) of
                   Inl err \<Rightarrow> Inl err
                 | Inr old_rep \<Rightarrow> Inr (Some old_rep))
           else Inr None))"

text \<open>The last block: the found representation takes the MD5 checksum and the
  uniquifier of the new one.\<close>

definition add_missing_info ::
  "representation_t \<Rightarrow> representation_t option \<Rightarrow> representation_t option" where
  "add_missing_info rep old_rep =
     map_option (\<lambda>r. r\<lparr>md5_checksum := md5_checksum rep, uniquifier := uniquifier rep\<rparr>) old_rep"

definition get_shared_rep ::
  "fs_fs_data_t \<Rightarrow> rep_cache_access \<Rightarrow> representation_t \<Rightarrow> reps_hash_t option
     \<Rightarrow> (svn_error_t + representation_t option) \<times> svn_error_t list" where
  "get_shared_rep ffd rc rep reps_hash =
    (if \<not> rep_sharing_allowed ffd then (Inr None, [])
     else
       (case (case reps_hash_lookup reps_hash rep of
                None \<Rightarrow> rep_reference_lookup rc rep
              | Some old_rep \<Rightarrow> (Inr (Some old_rep), [])) of
          (Inl err, warnings) \<Rightarrow> (Inl err, warnings)
        | (Inr old_rep, warnings) \<Rightarrow>
            (case (case (old_rep, txn_id rep) of
                     (None, Some txn) \<Rightarrow> txn_sha1_lookup rc txn rep
                   | _ \<Rightarrow> Inr old_rep) of
               Inl err \<Rightarrow> (Inl err, warnings)
             | Inr old_rep' \<Rightarrow> (Inr (add_missing_info rep old_rep'), warnings))))"

text \<open>
  The order of lookups in the words of the spec, for comparison with the code: the
  in-transaction hash first, the per-transaction sidecar file second, the index
  database third.
\<close>

definition spec_get_shared_rep ::
  "fs_fs_data_t \<Rightarrow> rep_cache_access \<Rightarrow> representation_t \<Rightarrow> reps_hash_t option
     \<Rightarrow> (svn_error_t + representation_t option) \<times> svn_error_t list" where
  "spec_get_shared_rep ffd rc rep reps_hash =
    (if \<not> rep_sharing_allowed ffd then (Inr None, [])
     else
       (case (case (reps_hash_lookup reps_hash rep, txn_id rep) of
                (None, Some txn) \<Rightarrow> txn_sha1_lookup rc txn rep
              | (old_rep, _) \<Rightarrow> Inr old_rep) of
          Inl err \<Rightarrow> (Inl err, [])
        | Inr old_rep \<Rightarrow>
            (case (case old_rep of
                     None \<Rightarrow> rep_reference_lookup rc rep
                   | Some r \<Rightarrow> (Inr (Some r), [])) of
               (Inl err, warnings) \<Rightarrow> (Inl err, warnings)
             | (Inr old_rep', warnings) \<Rightarrow> (Inr (add_missing_info rep old_rep'), warnings))))"

section \<open>An open filesystem and its locks\<close>

text \<open>
  An open filesystem as far as commit and hotcopy look at it: the format, shard size
  and UUID that svn_fs_fs__open reads into svn_fs_t and fs_fs_data_t, the two cached
  fields youngest_rev_cache and has_write_lock of fs_fs_data_t, and the content of
  the files current and min-unpacked-rev on disk.
\<close>

record fs_state =
  format :: int
  max_files_per_dir :: int
  uuid :: string
  current :: svn_revnum_t
  min_unpacked_rev :: svn_revnum_t
  youngest_rev_cache :: svn_revnum_t
  has_write_lock :: bool

text \<open>
  The format numbers that gate features (SVN_FS_FS__MIN_..._FORMAT of fs.h, not part
  of the sources), taken as parameters.
\<close>

record fs_formats =
  SVN_FS_FS__MIN_PACKED_FORMAT :: int
  SVN_FS_FS__MIN_CONFIG_FILE :: int
  SVN_FS_FS__MIN_NO_GLOBAL_IDS_FORMAT :: int
  SVN_FS_FS__MIN_PROTOREVS_DIR_FORMAT :: int

text \<open>
  A sequence of calls wrapped in SVN_ERR: each call returns an error or nothing and
  may change the state; the first error ends the sequence.
\<close>

fun run_steps :: "('s \<Rightarrow> svn_error_t option \<times> 's) list \<Rightarrow> 's \<Rightarrow> svn_error_t option \<times> 's" where
  "run_steps [] s = (None, s)"
| "run_steps (f # fs) s =
     (case f s of
        (Some err, s') \<Rightarrow> (Some err, s')
      | (None, s') \<Rightarrow> run_steps fs s')"

text \<open>A call into code outside fs_fs.c: its outcome is a parameter, and on
  success it has the given effect on the modelled state.\<close>

definition call :: "svn_error_t option \<Rightarrow> ('s \<Rightarrow> 's) \<Rightarrow> 's \<Rightarrow> svn_error_t option \<times> 's" where
  "call outcome effect s =
     (case outcome of Some err \<Rightarrow> (Some err, s) | None \<Rightarrow> (None, effect s))"

definition when_step ::
  "bool \<Rightarrow> ('s \<Rightarrow> svn_error_t option \<times> 's) \<Rightarrow> 's \<Rightarrow> svn_error_t option \<times> 's" where
  "when_step c f s = (if c then f s else (None, s))"

text \<open>SVN_ERR_ASSERT: a failed assertion returns the assertion-failure error.\<close>

definition SVN_ERR_ASSERT :: "bool \<Rightarrow> string \<Rightarrow> 's \<Rightarrow> svn_error_t option \<times> 's" where
  "SVN_ERR_ASSERT c expr s =
     (if c then (None, s) else (Some (svn_error_create SVN_ERR_ASSERTION_FAIL expr), s))"

text \<open>The outcomes of the calls made while taking the write lock.\<close>

record lock_io =
  mutex_lock_err :: "svn_error_t option"
  get_lock_on_filesystem_err :: "svn_error_t option"
  update_min_unpacked_rev_err :: "svn_error_t option"
  get_youngest_err :: "svn_error_t option"
  mutex_unlock_err :: "svn_error_t option"

text \<open>
  with_some_lock_file. An error of the two reads made before the body returns at
  once, before the subpool is destroyed, so the flag has_write_lock stays set on
  that path; after the body the cleanup of the subpool resets it.
\<close>

definition with_some_lock_file ::
  "fs_formats \<Rightarrow> lock_io \<Rightarrow> ('a fs_state_scheme \<Rightarrow> svn_error_t option \<times> 'a fs_state_scheme)
     \<Rightarrow> bool \<Rightarrow> 'a fs_state_scheme \<Rightarrow> svn_error_t option \<times> 'a fs_state_scheme" where
  "with_some_lock_file K io body is_global_lock fs =
    (case get_lock_on_filesystem_err io of
       Some err \<Rightarrow> (Some err, fs)
     | None \<Rightarrow>
         (let fs1 = (if is_global_lock then fs\<lparr>has_write_lock := True\<rparr> else fs) in
          case (if SVN_FS_FS__MIN_PACKED_FORMAT K \<le> format fs1
                then update_min_unpacked_rev_err io else None) of
            Some err \<Rightarrow> (Some err, fs1)
          | None \<Rightarrow>
              (case get_youngest_err io of
                 Some err \<Rightarrow> (Some err, fs1)
               | None \<Rightarrow>
                   (case body (fs1\<lparr>youngest_rev_cache := current fs1\<rparr>) of
                      (err, fs2) \<Rightarrow>
                        (err, if is_global_lock then fs2\<lparr>has_write_lock := False\<rparr>
                              else fs2)))))"

text \<open>
  Modelled from the spec: the macro SVN_MUTEX__WITH_LOCK (svn_mutex.h) is not part
  of the sources. The in-process mutex is taken first, then the file lock; an error
  of the body takes precedence over an error of releasing the mutex.
\<close>

definition svn_fs_fs__with_write_lock ::
  "fs_formats \<Rightarrow> lock_io \<Rightarrow> ('a fs_state_scheme \<Rightarrow> svn_error_t option \<times> 'a fs_state_scheme)
     \<Rightarrow> 'a fs_state_scheme \<Rightarrow> svn_error_t option \<times> 'a fs_state_scheme" where
  "svn_fs_fs__with_write_lock K io body fs =
    (case mutex_lock_err io of
       Some err \<Rightarrow> (Some err, fs)
     | None \<Rightarrow>
         (case with_some_lock_file K io body True fs of
            (Some err, fs') \<Rightarrow> (Some err, fs')
          | (None, fs') \<Rightarrow> (mutex_unlock_err io, fs')))"

section \<open>Commit\<close>

text \<open>
  The state a commit works on: the open filesystem, the transaction directories and
  proto-revision files present, the revision and revision-property files in place,
  the rows of the rep-cache database, and the caller's variable that receives the
  new revision number (\<open>None\<close> while nothing has been stored in it). Of the content
  of the files only the root node-revision is kept: the one that write_final_rev has
  written into the proto-revision file of a transaction, and the one that each
  revision file in place holds.
\<close>

record commit_state = fs_state +
  txn_dirs :: "string set"
  proto_rev_files :: "string set"
  rev_files :: "svn_revnum_t set"
  revprop_files :: "svn_revnum_t set"
  rep_cache_rows :: "representation_t list"
  new_rev_p :: "svn_revnum_t option"
  proto_rev_root :: "string \<rightharpoonup> node_revision_t"
  rev_root :: "svn_revnum_t \<rightharpoonup> node_revision_t"

text \<open>A transaction handle (svn_fs_txn_t); its field id is \<open>id_txn\<close> here.\<close>

record svn_fs_txn_t =
  id_txn :: string
  base_rev :: svn_revnum_t

text \<open>
  The outcomes of the calls of commit_body and svn_fs_fs__commit into the rest of
  the library and into the operating system, in the order of the calls.
  Of write_final_rev, called on the root of the transaction, the end is modelled
  (see below); \<open>write_final_rev_err\<close> is the outcome of all it does before, that is
  reading the root node-revision of the transaction, writing its children and its
  representations and giving it its permanent id, \<open>txn_root_noderev\<close> is the root
  node-revision it then holds, \<open>head_access\<close> stands for the readers of the revision
  store, and \<open>write_final_rev_reps\<close> is the array reps_to_cache as it leaves it.
\<close>

record commit_io =
  youngest_rev_err :: "svn_error_t option"
  verify_locks_err :: "svn_error_t option"
  get_next_revision_ids_err :: "svn_error_t option"
  get_writable_proto_rev_err :: "svn_error_t option"
  get_file_offset_err :: "svn_error_t option"
  write_final_rev_err :: "svn_error_t option"
  txn_root_noderev :: node_revision_t
  head_access :: fs_access
  write_noderev_err :: "svn_error_t option"
  write_final_rev_reps :: "representation_t list"
  write_final_changed_path_info_err :: "svn_error_t option"
  write_trailer_err :: "svn_error_t option"
  flush_to_disk_err :: "svn_error_t option"
  file_close_err :: "svn_error_t option"
  txn_proplist_err :: "svn_error_t option"
  txn_has_check_ood :: bool
  txn_has_check_locks :: bool
  change_txn_props_err :: "svn_error_t option"
  rev_shard_make_err :: "svn_error_t option"
  rev_shard_copy_perms_err :: "svn_error_t option"
  is_packed_revprop :: bool
  revprops_shard_make_err :: "svn_error_t option"
  revprops_shard_copy_perms_err :: "svn_error_t option"
  move_rev_err :: "svn_error_t option"
  unlock_proto_rev_err :: "svn_error_t option"
  change_txn_prop_date_err :: "svn_error_t option"
  move_revprops_err :: "svn_error_t option"
  verify_before_current_err :: "svn_error_t option"
  read_next_ids_err :: "svn_error_t option"
  write_current_err :: "svn_error_t option"
  purge_shared_txn_err :: "svn_error_t option"
  remove_txn_dir_err :: "svn_error_t option"
  remove_proto_rev_err :: "svn_error_t option"
  remove_proto_rev_lock_err :: "svn_error_t option"
  open_rep_cache_err :: "svn_error_t option"
  write_reps_to_cache_err :: "svn_error_t option"

text \<open>svn_fs_fs__youngest_rev: read the file current and cache the value.\<close>

definition svn_fs_fs__youngest_rev ::
  "svn_error_t option \<Rightarrow> 'a fs_state_scheme \<Rightarrow> (svn_error_t + svn_revnum_t) \<times> 'a fs_state_scheme" where
  "svn_fs_fs__youngest_rev outcome fs =
     (case outcome of
        Some err \<Rightarrow> (Inl err, fs)
      | None \<Rightarrow> (Inr (current fs), fs\<lparr>youngest_rev_cache := current fs\<rparr>))"

text \<open>The creation of a shard directory: an error is returned unless it says that
  the directory exists already.\<close>

definition ignore_eexist :: "svn_error_t option \<Rightarrow> svn_error_t option" where
  "ignore_eexist outcome =
     (case outcome of
        Some err \<Rightarrow> (if apr_err err = APR_EEXIST then None else Some err)
      | None \<Rightarrow> None)"

definition write_final_current ::
  "fs_formats \<Rightarrow> commit_io \<Rightarrow> svn_revnum_t \<Rightarrow> commit_state \<Rightarrow> svn_error_t option \<times> commit_state" where
  "write_final_current K io rev_new fs =
     (if SVN_FS_FS__MIN_NO_GLOBAL_IDS_FORMAT K \<le> format fs
      then call (write_current_err io) (\<lambda>s. s\<lparr>current := rev_new\<rparr>) fs
      else run_steps
             [call (read_next_ids_err io) (\<lambda>s. s),
              call (write_current_err io) (\<lambda>s. s\<lparr>current := rev_new\<rparr>)] fs)"

definition svn_fs_fs__purge_txn ::
  "fs_formats \<Rightarrow> commit_io \<Rightarrow> string \<Rightarrow> commit_state \<Rightarrow> svn_error_t option \<times> commit_state" where
  "svn_fs_fs__purge_txn K io txn fs =
     run_steps
       [call (purge_shared_txn_err io) (\<lambda>s. s),
        call (remove_txn_dir_err io) (\<lambda>s. s\<lparr>txn_dirs := txn_dirs s - {txn}\<rparr>),
        when_step (SVN_FS_FS__MIN_PROTOREVS_DIR_FORMAT K \<le> format fs)
          (run_steps
             [call (remove_proto_rev_err io)
                (\<lambda>s. s\<lparr>proto_rev_files := proto_rev_files s - {txn},
                        proto_rev_root := (proto_rev_root s)(txn := None)\<rparr>),
              call (remove_proto_rev_lock_err io) (\<lambda>s. s)])] fs"

text \<open>
  write_final_rev as commit_body calls it, on the root of the transaction with
  at_root = TRUE. Its last statements are modelled: the root node-revision is checked
  by validate_root_noderev for the revision REV (\<open>rev_new\<close> here), and only then
  written into the proto-revision file by svn_fs_fs__write_noderev.
\<close>

definition write_final_rev ::
  "commit_io \<Rightarrow> svn_fs_txn_t \<Rightarrow> svn_revnum_t \<Rightarrow> commit_state
     \<Rightarrow> svn_error_t option \<times> commit_state" where
  "write_final_rev io txn rev_new =
     run_steps
       [call (write_final_rev_err io) (\<lambda>s. s),
        call (validate_root_noderev (head_access io) (txn_root_noderev io) rev_new) (\<lambda>s. s),
        call (write_noderev_err io)
          (\<lambda>s. s\<lparr>proto_rev_root := (proto_rev_root s)(id_txn txn \<mapsto> txn_root_noderev io)\<rparr>)]"

text \<open>The calls of commit_body that follow the out-of-date check, in source order,
  for the new revision \<open>new_rev\<close>. Moving the proto-revision file into place makes its
  root node-revision the root of the new revision.\<close>

definition commit_steps ::
  "fs_formats \<Rightarrow> commit_io \<Rightarrow> svn_fs_txn_t \<Rightarrow> commit_state \<Rightarrow> svn_revnum_t
     \<Rightarrow> (commit_state \<Rightarrow> svn_error_t option \<times> commit_state) list" where
  "commit_steps K io txn fs new_rev =
     [call (verify_locks_err io) (\<lambda>s. s),
      when_step (format fs < SVN_FS_FS__MIN_NO_GLOBAL_IDS_FORMAT K)
        (call (get_next_revision_ids_err io) (\<lambda>s. s)),
      call (get_writable_proto_rev_err io) (\<lambda>s. s),
      call (get_file_offset_err io) (\<lambda>s. s),
      write_final_rev io txn new_rev,
      call (write_final_changed_path_info_err io) (\<lambda>s. s),
      call (write_trailer_err io) (\<lambda>s. s),
      call (flush_to_disk_err io) (\<lambda>s. s),
      call (file_close_err io) (\<lambda>s. s),
      call (txn_proplist_err io) (\<lambda>s. s),
      when_step (txn_has_check_ood io \<or> txn_has_check_locks io)
        (call (change_txn_props_err io) (\<lambda>s. s)),
      when_step (max_files_per_dir fs \<noteq> 0 \<and> new_rev mod max_files_per_dir fs = 0)
        (run_steps
           [call (ignore_eexist (rev_shard_make_err io)) (\<lambda>s. s),
            call (rev_shard_copy_perms_err io) (\<lambda>s. s),
            SVN_ERR_ASSERT (\<not> is_packed_revprop io)
              ''! svn_fs_fs__is_packed_revprop(cb->fs, new_rev)'',
            call (ignore_eexist (revprops_shard_make_err io)) (\<lambda>s. s),
            call (revprops_shard_copy_perms_err io) (\<lambda>s. s)]),
      call (move_rev_err io)
        (\<lambda>s. s\<lparr>proto_rev_files := proto_rev_files s - {id_txn txn},
                rev_files := insert new_rev (rev_files s),
                rev_root := (rev_root s)(new_rev := proto_rev_root s (id_txn txn)),
                proto_rev_root := (proto_rev_root s)(id_txn txn := None)\<rparr>),
      call (unlock_proto_rev_err io) (\<lambda>s. s),
      call (change_txn_prop_date_err io) (\<lambda>s. s),
      SVN_ERR_ASSERT (\<not> is_packed_revprop io)
        ''! svn_fs_fs__is_packed_revprop(cb->fs, new_rev)'',
      call (move_revprops_err io)
        (\<lambda>s. s\<lparr>revprop_files := insert new_rev (revprop_files s)\<rparr>),
      call (verify_before_current_err io) (\<lambda>s. s),
      write_final_current K io new_rev,
      call None (\<lambda>s. s\<lparr>new_rev_p := Some new_rev, youngest_rev_cache := new_rev\<rparr>),
      svn_fs_fs__purge_txn K io (id_txn txn)]"

definition commit_body ::
  "fs_formats \<Rightarrow> commit_io \<Rightarrow> svn_fs_txn_t \<Rightarrow> commit_state \<Rightarrow> svn_error_t option \<times> commit_state" where
  "commit_body K io txn fs0 =
    (case svn_fs_fs__youngest_rev (youngest_rev_err io) fs0 of
       (Inl err, fs) \<Rightarrow> (Some err, fs)
     | (Inr old_rev, fs) \<Rightarrow>
         (if base_rev txn \<noteq> old_rev
          then (Some (svn_error_create SVN_ERR_FS_TXN_OUT_OF_DATE ''Transaction out of date''), fs)
          else
            (let new_rev = old_rev + 1 in
             run_steps (commit_steps K io txn fs new_rev) fs)))"

definition svn_fs_fs__commit ::
  "fs_formats \<Rightarrow> fs_fs_data_t \<Rightarrow> lock_io \<Rightarrow> commit_io \<Rightarrow> svn_fs_txn_t \<Rightarrow> commit_state
     \<Rightarrow> svn_error_t option \<times> commit_state" where
  "svn_fs_fs__commit K ffd lio io txn fs =
    (case svn_fs_fs__with_write_lock K lio (commit_body K io txn) fs of
       (Some err, fs') \<Rightarrow> (Some err, fs')
     | (None, fs') \<Rightarrow>
         when_step (rep_sharing_allowed ffd)
           (run_steps
              [call (open_rep_cache_err io) (\<lambda>s. s),
               call (write_reps_to_cache_err io)
                 (\<lambda>s. s\<lparr>rep_cache_rows := rep_cache_rows s @ write_final_rev_reps io\<rparr>)])
           fs')"

section \<open>Hotcopy\<close>

text \<open>The destination of a hotcopy: an open filesystem, whether its configuration
  file has been copied, and the revisions whose data (revision files or packs) it
  holds.\<close>

record hotcopy_state = fs_state +
  has_config :: bool
  rev_data :: "svn_revnum_t set"

text \<open>
  The outcomes of the calls of svn_fs_fs__hotcopy and hotcopy_body up to the copying
  of revisions. \<open>cancel_func\<close> is the optional cancellation callback; its argument
  numbers the place of the call. \<open>copy_revisions\<close> stands for the rest of
  hotcopy_body, from the creation of the revs directory to the stamping of the format
  file, with the values of incremental, src_youngest, dst_youngest,
  src_min_unpacked_rev and dst_min_unpacked_rev at that point.
\<close>

record hotcopy_io =
  cancel_func :: "(nat \<Rightarrow> svn_error_t option) option"
  open_src_err :: "svn_error_t option"
  check_path_format_err :: "svn_error_t option"
  create_empty_dest_err :: "svn_error_t option"
  open_dst_err :: "svn_error_t option"
  initialize_caches_err :: "svn_error_t option"
  config_copy_err :: "svn_error_t option"
  get_youngest_src_err :: "svn_error_t option"
  get_youngest_dst_err :: "svn_error_t option"
  read_min_unpacked_src_err :: "svn_error_t option"
  read_min_unpacked_dst_err :: "svn_error_t option"
  copy_min_unpacked_err :: "svn_error_t option"
  copy_revisions ::
    "bool \<Rightarrow> svn_revnum_t \<Rightarrow> svn_revnum_t \<Rightarrow> svn_revnum_t \<Rightarrow> svn_revnum_t \<Rightarrow> fs_state
       \<Rightarrow> hotcopy_state \<Rightarrow> svn_error_t option \<times> hotcopy_state"

definition cancel :: "hotcopy_io \<Rightarrow> nat \<Rightarrow> 's \<Rightarrow> svn_error_t option \<times> 's" where
  "cancel io n s = (case cancel_func io of None \<Rightarrow> (None, s) | Some f \<Rightarrow> (f n, s))"

definition hotcopy_incremental_check_preconditions ::
  "'a fs_state_scheme \<Rightarrow> 'b fs_state_scheme \<Rightarrow> svn_error_t option" where
  "hotcopy_incremental_check_preconditions src_fs dst_fs =
    (if format src_fs \<noteq> format dst_fs
     then Some (svn_error_create SVN_ERR_UNSUPPORTED_FEATURE
       ''The FSFS format of the hotcopy source does not match the FSFS format of the hotcopy destination; please upgrade both repositories to the same format'')
     else if uuid src_fs \<noteq> uuid dst_fs
     then Some (svn_error_create SVN_ERR_RA_UUID_MISMATCH
       ''The UUID of the hotcopy source does not match the UUID of the hotcopy destination'')
     else if max_files_per_dir src_fs \<noteq> max_files_per_dir dst_fs
     then Some (svn_error_create SVN_ERR_UNSUPPORTED_FEATURE
       ''The sharding layout configuration of the hotcopy source does not match the sharding layout configuration of the hotcopy destination'')
     else None)"

text \<open>
  hotcopy_body up to the copying of revisions. When the copy of the configuration
  file fails, every branch of the source returns that error, wrapped in a message or
  composed with a second one; the wrapping is left out.
\<close>

definition hotcopy_body ::
  "fs_formats \<Rightarrow> hotcopy_io \<Rightarrow> fs_state \<Rightarrow> bool \<Rightarrow> hotcopy_state
     \<Rightarrow> svn_error_t option \<times> hotcopy_state" where
  "hotcopy_body K io src_fs incremental dst_fs0 =
    (case run_steps
            [when_step (SVN_FS_FS__MIN_CONFIG_FILE K \<le> format src_fs)
               (call (config_copy_err io) (\<lambda>s. s\<lparr>has_config := True\<rparr>)),
             cancel io 2,
             call (get_youngest_src_err io) (\<lambda>s. s)] dst_fs0 of
       (Some err, dst_fs) \<Rightarrow> (Some err, dst_fs)
     | (None, dst_fs) \<Rightarrow>
         (let src_youngest = current src_fs in
          case (if incremental
                then (case get_youngest_dst_err io of
                        Some err \<Rightarrow> Inl err
                      | None \<Rightarrow>
                          (if src_youngest < current dst_fs
                           then Inl (svn_error_create SVN_ERR_UNSUPPORTED_FEATURE
                             ''The hotcopy destination already contains more revisions than the hotcopy source contains; are source and destination swapped?'')
                           else Inr (current dst_fs)))
                else Inr 0) of
            Inl err \<Rightarrow> (Some err, dst_fs)
          | Inr dst_youngest \<Rightarrow>
              (case cancel io 3 dst_fs of
                 (Some err, dst_fs) \<Rightarrow> (Some err, dst_fs)
               | (None, dst_fs) \<Rightarrow>
                   (if SVN_FS_FS__MIN_PACKED_FORMAT K \<le> format src_fs
                    then
                      (case run_steps
                              [call (read_min_unpacked_src_err io) (\<lambda>s. s),
                               call (read_min_unpacked_dst_err io) (\<lambda>s. s)] dst_fs of
                         (Some err, dst_fs) \<Rightarrow> (Some err, dst_fs)
                       | (None, dst_fs) \<Rightarrow>
                           (let src_min_unpacked_rev = min_unpacked_rev src_fs;
                                dst_min_unpacked_rev = min_unpacked_rev dst_fs
                            in if src_min_unpacked_rev < dst_min_unpacked_rev
                               then (Some (svn_error_create SVN_ERR_UNSUPPORTED_FEATURE
                                 ''The hotcopy destination already contains more packed revisions than the hotcopy source contains''),
                                     dst_fs)
                               else run_steps
                                      [call (copy_min_unpacked_err io)
                                         (\<lambda>s. s\<lparr>min_unpacked_rev := min_unpacked_rev src_fs\<rparr>),
                                       cancel io 4,
                                       copy_revisions io incremental src_youngest dst_youngest
                                         src_min_unpacked_rev dst_min_unpacked_rev src_fs]
                                      dst_fs))
                    else run_steps
                           [cancel io 4,
                            copy_revisions io incremental src_youngest dst_youngest 0 0 src_fs]
                           dst_fs))))"

text \<open>hotcopy_create_empty_dest: a destination with the configuration of the
  source and no revisions, not even revision zero.\<close>

definition hotcopy_create_empty_dest ::
  "hotcopy_io \<Rightarrow> fs_state \<Rightarrow> svn_error_t + hotcopy_state" where
  "hotcopy_create_empty_dest io src_fs =
     (case create_empty_dest_err io of
        Some err \<Rightarrow> Inl err
      | None \<Rightarrow>
          Inr \<lparr>format = format src_fs, max_files_per_dir = max_files_per_dir src_fs,
               uuid = uuid src_fs, current = 0, min_unpacked_rev = 0,
               youngest_rev_cache = 0, has_write_lock = False,
               has_config = False, rev_data = {}\<rparr>)"

text \<open>
  svn_fs_fs__hotcopy. The destination is \<open>None\<close> when no format file exists at the
  destination path. The result carries the destination as the call leaves it. The
  source is taken to stay as it is while the copy runs.
\<close>

definition hotcopy_open_dest ::
  "hotcopy_io \<Rightarrow> fs_state \<Rightarrow> hotcopy_state \<Rightarrow> svn_error_t option \<times> hotcopy_state" where
  "hotcopy_open_dest io src_fs dst_fs =
     run_steps
       [call (open_dst_err io) (\<lambda>s. s\<lparr>youngest_rev_cache := current s\<rparr>),
        (\<lambda>s. (hotcopy_incremental_check_preconditions src_fs s, s)),
        call (initialize_caches_err io) (\<lambda>s. s)] dst_fs"

definition svn_fs_fs__hotcopy ::
  "fs_formats \<Rightarrow> lock_io \<Rightarrow> hotcopy_io \<Rightarrow> fs_state \<Rightarrow> hotcopy_state option \<Rightarrow> bool
     \<Rightarrow> svn_error_t option \<times> hotcopy_state option" where
  "svn_fs_fs__hotcopy K lio io src_fs dst incremental =
    (case run_steps [cancel io 0, call (open_src_err io) (\<lambda>s. s)] dst of
       (Some err, dst) \<Rightarrow> (Some err, dst)
     | (None, dst) \<Rightarrow>
         (case (if incremental
                then (case check_path_format_err io of
                        Some err \<Rightarrow> Inl (err, dst)
                      | None \<Rightarrow>
                          (case dst of
                             None \<Rightarrow>
                               (case hotcopy_create_empty_dest io src_fs of
                                  Inl err \<Rightarrow> Inl (err, dst)
                                | Inr dst_fs \<Rightarrow> Inr dst_fs)
                           | Some dst_fs \<Rightarrow>
                               (case hotcopy_open_dest io src_fs dst_fs of
                                  (Some err, dst_fs) \<Rightarrow> Inl (err, Some dst_fs)
                                | (None, dst_fs) \<Rightarrow> Inr dst_fs)))
                else (case hotcopy_create_empty_dest io src_fs of
                        Inl err \<Rightarrow> Inl (err, dst)
                      | Inr dst_fs \<Rightarrow> Inr dst_fs)) of
            Inl (err, dst) \<Rightarrow> (Some err, dst)
          | Inr dst_fs \<Rightarrow>
              (case cancel io 1 dst_fs of
                 (Some err, dst_fs) \<Rightarrow> (Some err, Some dst_fs)
               | (None, dst_fs) \<Rightarrow>
                   (case svn_fs_fs__with_write_lock K lio
                           (hotcopy_body K io src_fs incremental) dst_fs of
                      (err, dst_fs) \<Rightarrow> (err, Some dst_fs)))))"

section \<open>Example data\<close>

text \<open>Two node-revision ids of one transaction, and a changes-file record of a
  directory with no copyfrom and no modification flags.\<close>

definition example_id_d :: svn_fs_id_t where
  "example_id_d = \<lparr>node_id = ''_0'', copy_id = ''0'', origin = Txn_location ''0-1''\<rparr>"

definition example_id_f :: svn_fs_id_t where
  "example_id_f = \<lparr>node_id = ''_1'', copy_id = ''0'', origin = Txn_location ''0-1''\<rparr>"

definition example_change ::
  "string \<Rightarrow> svn_fs_id_t option \<Rightarrow> svn_fs_path_change_kind_t \<Rightarrow> bool \<Rightarrow> change_t" where
  "example_change p i k tm =
     \<lparr>path = p, noderev_id = i, kind = k, ch_text_mod = tm, ch_prop_mod = False,
      ch_node_kind = svn_node_dir, ch_copyfrom_rev = SVN_INVALID_REVNUM,
      ch_copyfrom_path = None\<rparr>"

text \<open>A folded set that holds one entry, for the path /d, made from a first record
  of the given kind.\<close>

definition example_folded :: "svn_fs_path_change_kind_t \<Rightarrow> changes_hash" where
  "example_folded k = [''/d'' \<mapsto> fold_new (example_change ''/d'' (Some example_id_d) k False)]"


section \<open>The walk along predecessors, in the words of the spec\<close>



section \<open>Example data: a line of node-revisions\<close>

text \<open>
  A node with one node-revision per revision: the node-revision of revision \<open>r\<close> has
  \<open>r\<close> predecessors, its predecessor is the node-revision of revision \<open>r - 1\<close>, and
  its data representation was written \<open>lag\<close> revisions earlier (\<open>lag = 0\<close>: in its
  own revision).
\<close>

definition example_rep :: "svn_revnum_t \<Rightarrow> representation_t" where
  "example_rep r =
     \<lparr>md5_checksum = None, sha1_checksum = None, revision = r, offset = 0, size_rep = 10,
      expanded_size = 10, txn_id = None, uniquifier = None\<rparr>"

definition example_id :: "svn_revnum_t \<Rightarrow> svn_fs_id_t" where
  "example_id r = \<lparr>node_id = ''0'', copy_id = ''0'', origin = Rev_location r 0\<rparr>"

definition example_noderev :: "int \<Rightarrow> svn_revnum_t \<Rightarrow> int \<Rightarrow> node_revision_t" where
  "example_noderev lag r count =
     \<lparr>id_nr = example_id r,
      predecessor_id = (if 0 < r then Some (example_id (r - 1)) else None),
      predecessor_count = count,
      data_rep = Some (example_rep (r - lag)),
      prop_rep = None\<rparr>"

definition example_error :: svn_error_t where
  "example_error = \<lparr>apr_err = Errno_other 1, message = ''no such node-revision''\<rparr>"

definition example_fs :: "int \<Rightarrow> int \<Rightarrow> fs_access" where
  "example_fs lag chain =
     \<lparr>get_node_revision =
        (\<lambda>i. case i of
               None \<Rightarrow> Inl example_error
             | Some j \<Rightarrow>
                 (case origin j of
                    Rev_location r off \<Rightarrow> Inr (example_noderev lag r r)
                  | Txn_location t \<Rightarrow> Inl example_error)),
      rep_chain_length = (\<lambda>rep. Inr chain),
      root_node_id = (\<lambda>r. Inr (example_id r))\<rparr>"

definition example_ffd :: "int \<Rightarrow> int \<Rightarrow> fs_fs_data_t" where
  "example_ffd walk linear =
     \<lparr>rep_sharing_allowed = True, deltify_directories = False, deltify_properties = False,
      max_deltification_walk = walk, max_linear_deltification = linear\<rparr>"


section \<open>Example data: rep-sharing\<close>

text \<open>
  A representation just written in transaction 0-1, a representation the index
  database knows in revision 3, and one recorded in the sidecar file of the
  transaction. \<open>example_rc index sidecar\<close> answers an index lookup with \<open>index\<close> and
  has the sidecar file exactly when \<open>sidecar\<close> holds.
\<close>

definition example_new_rep :: representation_t where
  "example_new_rep =
     \<lparr>md5_checksum = Some ''md5-new'', sha1_checksum = Some ''sha1-x'',
      revision = SVN_INVALID_REVNUM, offset = 200, size_rep = 10, expanded_size = 10,
      txn_id = Some ''0-1'', uniquifier = Some ''0-1/_5''\<rparr>"

definition example_index_rep :: representation_t where
  "example_index_rep =
     \<lparr>md5_checksum = None, sha1_checksum = Some ''sha1-x'', revision = 3, offset = 40,
      size_rep = 10, expanded_size = 10, txn_id = None, uniquifier = None\<rparr>"

definition example_sidecar_rep :: representation_t where
  "example_sidecar_rep =
     \<lparr>md5_checksum = Some ''md5-new'', sha1_checksum = Some ''sha1-x'',
      revision = SVN_INVALID_REVNUM, offset = 100, size_rep = 10, expanded_size = 10,
      txn_id = Some ''0-1'', uniquifier = Some ''0-1/_2''\<rparr>"

definition example_rc ::
  "svn_error_t + representation_t option \<Rightarrow> bool \<Rightarrow> rep_cache_access" where
  "example_rc index sidecar =
     \<lparr>get_rep_reference = (\<lambda>sha1. index),
      check_rep = (\<lambda>rep. None),
      check_path_txn_sha1 = (\<lambda>txn sha1. Inr (if sidecar then svn_node_file else svn_node_none)),
      read_txn_sha1 = (\<lambda>txn sha1. Inr example_sidecar_rep)\<rparr>"



section \<open>Hotcopy preconditions in the words of the spec\<close>

text \<open>The min-unpacked-rev that hotcopy_body works with: the content of the file
  min-unpacked-rev when the format of the source has packing, and 0 otherwise.\<close>

definition effective_min_unpacked_rev ::
  "fs_formats \<Rightarrow> 'a fs_state_scheme \<Rightarrow> 'b fs_state_scheme \<Rightarrow> svn_revnum_t" where
  "effective_min_unpacked_rev K src_fs fs =
     (if SVN_FS_FS__MIN_PACKED_FORMAT K \<le> format src_fs then min_unpacked_rev fs else 0)"

text \<open>
  The five requirements of the spec on an incremental hotcopy: equal formats, equal
  UUIDs, equal shard sizes, SRC.youngest at least DST.youngest, and
  SRC.min-unpacked-rev at least DST.min-unpacked-rev.
\<close>

definition spec_hotcopy_preconditions ::
  "fs_formats \<Rightarrow> 'a fs_state_scheme \<Rightarrow> 'b fs_state_scheme \<Rightarrow> bool" where
  "spec_hotcopy_preconditions K src_fs dst_fs =
     (format src_fs = format dst_fs
      \<and> uuid src_fs = uuid dst_fs
      \<and> max_files_per_dir src_fs = max_files_per_dir dst_fs
      \<and> current dst_fs \<le> current src_fs
      \<and> effective_min_unpacked_rev K src_fs dst_fs \<le> effective_min_unpacked_rev K src_fs src_fs)"

text \<open>Every call that an incremental hotcopy makes before its last precondition
  check returns without error.\<close>

definition hotcopy_calls_succeed ::
  "fs_formats \<Rightarrow> lock_io \<Rightarrow> hotcopy_io \<Rightarrow> 'a fs_state_scheme \<Rightarrow> 'b fs_state_scheme \<Rightarrow> bool" where
  "hotcopy_calls_succeed K lio io src_fs dst_fs =
     ((case cancel_func io of
         None \<Rightarrow> True
       | Some f \<Rightarrow> f 0 = None \<and> f 1 = None \<and> f 2 = None \<and> f 3 = None)
      \<and> open_src_err io = None
      \<and> check_path_format_err io = None
      \<and> open_dst_err io = None
      \<and> initialize_caches_err io = None
      \<and> mutex_lock_err lio = None
      \<and> get_lock_on_filesystem_err lio = None
      \<and> update_min_unpacked_rev_err lio = None
      \<and> get_youngest_err lio = None
      \<and> config_copy_err io = None
      \<and> get_youngest_src_err io = None
      \<and> get_youngest_dst_err io = None
      \<and> read_min_unpacked_src_err io = None
      \<and> read_min_unpacked_dst_err io = None)"

section \<open>Steps that keep a part of the state\<close>

text \<open>A step keeps the observation \<open>g\<close> when \<open>g\<close> reads the same value before and
  after it, whether the step fails or not.\<close>

definition keeps :: "('s \<Rightarrow> 'v) \<Rightarrow> ('s \<Rightarrow> svn_error_t option \<times> 's) \<Rightarrow> bool" where
  "keeps g f = (\<forall>s. g (snd (f s)) = g s)"

section \<open>Example data: commit and hotcopy\<close>

definition example_formats :: fs_formats where
  "example_formats =
     \<lparr>SVN_FS_FS__MIN_PACKED_FORMAT = 4, SVN_FS_FS__MIN_CONFIG_FILE = 4,
      SVN_FS_FS__MIN_NO_GLOBAL_IDS_FORMAT = 3, SVN_FS_FS__MIN_PROTOREVS_DIR_FORMAT = 3\<rparr>"

definition example_lock_io :: lock_io where
  "example_lock_io =
     \<lparr>mutex_lock_err = None, get_lock_on_filesystem_err = None,
      update_min_unpacked_rev_err = None, get_youngest_err = None, mutex_unlock_err = None\<rparr>"

text \<open>Every call of the commit succeeds; the transaction carries no flag
  properties, its root has one predecessor, and write_final_rev leaves one
  representation to cache.\<close>

definition example_commit_io :: commit_io where
  "example_commit_io =
     \<lparr>youngest_rev_err = None, verify_locks_err = None, get_next_revision_ids_err = None,
      get_writable_proto_rev_err = None, get_file_offset_err = None,
      write_final_rev_err = None, txn_root_noderev = example_noderev 0 1 1,
      head_access = example_fs 0 0, write_noderev_err = None,
      write_final_rev_reps = [example_rep 1],
      write_final_changed_path_info_err = None, write_trailer_err = None,
      flush_to_disk_err = None, file_close_err = None, txn_proplist_err = None,
      txn_has_check_ood = False, txn_has_check_locks = False, change_txn_props_err = None,
      rev_shard_make_err = None, rev_shard_copy_perms_err = None, is_packed_revprop = False,
      revprops_shard_make_err = None, revprops_shard_copy_perms_err = None,
      move_rev_err = None, unlock_proto_rev_err = None, change_txn_prop_date_err = None,
      move_revprops_err = None, verify_before_current_err = None, read_next_ids_err = None,
      write_current_err = None, purge_shared_txn_err = None, remove_txn_dir_err = None,
      remove_proto_rev_err = None, remove_proto_rev_lock_err = None,
      open_rep_cache_err = None, write_reps_to_cache_err = None\<rparr>"




text \<open>A filesystem of format 6 whose youngest revision is \<open>youngest\<close>, with the open
  transaction 0-1. The root of revision 0 has no predecessor.\<close>

definition example_commit_state :: "svn_revnum_t \<Rightarrow> commit_state" where
  "example_commit_state youngest =
     \<lparr>format = 6, max_files_per_dir = 1000, uuid = ''u-1'', current = youngest,
      min_unpacked_rev = 0, youngest_rev_cache = 0, has_write_lock = False,
      txn_dirs = {''0-1''}, proto_rev_files = {''0-1''}, rev_files = {0},
      revprop_files = {0}, rep_cache_rows = [], new_rev_p = None,
      proto_rev_root = Map.empty, rev_root = [0 \<mapsto> example_noderev 0 0 0]\<rparr>"


definition example_txn :: svn_fs_txn_t where
  "example_txn = \<lparr>id_txn = ''0-1'', base_rev = 0\<rparr>"

text \<open>A hotcopy source of format 6 at revision 10, and a destination at revision
  \<open>youngest\<close> with the given format, UUID, shard size and min-unpacked-rev.\<close>

definition example_src :: fs_state where
  "example_src =
     \<lparr>format = 6, max_files_per_dir = 1000, uuid = ''u-1'', current = 10,
      min_unpacked_rev = 0, youngest_rev_cache = 10, has_write_lock = False\<rparr>"

definition example_dst :: "int \<Rightarrow> string \<Rightarrow> int \<Rightarrow> svn_revnum_t \<Rightarrow> svn_revnum_t \<Rightarrow> hotcopy_state" where
  "example_dst fmt u shard youngest unpacked =
     \<lparr>format = fmt, max_files_per_dir = shard, uuid = u, current = youngest,
      min_unpacked_rev = unpacked, youngest_rev_cache = 0, has_write_lock = False,
      has_config = True, rev_data = {0, 1, 2}\<rparr>"

text \<open>Every call of the hotcopy succeeds, there is no cancellation callback, and the
  copying of revisions brings the destination to the youngest revision of the
  source.\<close>

definition example_hotcopy_io :: hotcopy_io where
  "example_hotcopy_io =
     \<lparr>cancel_func = None, open_src_err = None, check_path_format_err = None,
      create_empty_dest_err = None, open_dst_err = None, initialize_caches_err = None,
      config_copy_err = None, get_youngest_src_err = None, get_youngest_dst_err = None,
      read_min_unpacked_src_err = None, read_min_unpacked_dst_err = None,
      copy_min_unpacked_err = None,
      copy_revisions =
        (\<lambda>incremental src_youngest dst_youngest src_min dst_min src_fs dst_fs.
           (None, dst_fs\<lparr>current := src_youngest, rev_data := {0..src_youngest}\<rparr>))\<rparr>"


section \<open>Folding of changed paths: properties\<close>

lemma fold_change_existing:
  "changes (path change) = Some old_change \<Longrightarrow>
   fold_change changes change cc =
     (case fold_sanity old_change change of
        Some err \<Rightarrow> Inl err
      | None \<Rightarrow>
          (let n = map_option (\<lambda>n. n\<lparr>node_kind := ch_node_kind change\<rparr>)
                     (fold_merge old_change change)
           in Inr (changes(path change := n),
                   map_option (\<lambda>cache. cache(path change := fold_copyfrom n)) cc)))"
  by (simp add: fold_change_def split: option.splits)

lemma example_folded_d:
  "example_folded k (path (example_change ''/d'' i k' tm))
     = Some (fold_new (example_change ''/d'' (Some example_id_d) k False))"
  by (simp add: example_folded_def example_change_def)

lemma example_ids_differ: "example_id_d \<noteq> example_id_f"
  by (simp add: example_id_d_def example_id_f_def)

text \<open>
  C10. When a change is folded into an entry that already exists for its path, the
  fold fails with the corrupt error if the change has no node-revision id and is not
  a reset, or if it carries a node-revision id different from the id of the entry
  while the entry is not a delete.
\<close>

theorem fold_change_sanity_corrupt:
  assumes "changes (path change) = Some old_change"
    and "(noderev_id change = None \<and> kind change \<noteq> svn_fs_path_change_reset)
         \<or> (\<exists>i. noderev_id change = Some i \<and> node_rev_id old_change \<noteq> Some i
                \<and> change_kind old_change \<noteq> svn_fs_path_change_delete)"
  shows "\<exists>err. fold_change changes change cc = Inl err \<and> apr_err err = SVN_ERR_FS_CORRUPT"
  using assms
  by (auto simp: fold_change_existing fold_sanity_def svn_error_create_def svn_fs_fs__id_eq_def)

theorem fold_change_sanity_corrupt_witness:
  "(\<exists>err. fold_change (example_folded svn_fs_path_change_add)
             (example_change ''/d'' None svn_fs_path_change_delete False) None = Inl err
          \<and> apr_err err = SVN_ERR_FS_CORRUPT)
   \<and> (\<exists>err. fold_change (example_folded svn_fs_path_change_add)
             (example_change ''/d'' (Some example_id_f) svn_fs_path_change_modify False) None
               = Inl err
          \<and> apr_err err = SVN_ERR_FS_CORRUPT)"
proof
  have "noderev_id (example_change ''/d'' None svn_fs_path_change_delete False) = None
        \<and> kind (example_change ''/d'' None svn_fs_path_change_delete False)
            \<noteq> svn_fs_path_change_reset"
    by (simp add: example_change_def)
  then show "\<exists>err. fold_change (example_folded svn_fs_path_change_add)
             (example_change ''/d'' None svn_fs_path_change_delete False) None = Inl err
          \<and> apr_err err = SVN_ERR_FS_CORRUPT"
    using fold_change_sanity_corrupt
      [of "example_folded svn_fs_path_change_add"
          "example_change ''/d'' None svn_fs_path_change_delete False"
          "fold_new (example_change ''/d'' (Some example_id_d) svn_fs_path_change_add False)"
          None, OF example_folded_d]
    by blast
next
  have "\<exists>i. noderev_id (example_change ''/d'' (Some example_id_f) svn_fs_path_change_modify False)
               = Some i
          \<and> node_rev_id (fold_new (example_change ''/d'' (Some example_id_d)
                 svn_fs_path_change_add False)) \<noteq> Some i
          \<and> change_kind (fold_new (example_change ''/d'' (Some example_id_d)
                 svn_fs_path_change_add False)) \<noteq> svn_fs_path_change_delete"
    using example_ids_differ by (simp add: example_change_def fold_new_def)
  then show "\<exists>err. fold_change (example_folded svn_fs_path_change_add)
             (example_change ''/d'' (Some example_id_f) svn_fs_path_change_modify False) None
               = Inl err
          \<and> apr_err err = SVN_ERR_FS_CORRUPT"
    using fold_change_sanity_corrupt
      [of "example_folded svn_fs_path_change_add"
          "example_change ''/d'' (Some example_id_f) svn_fs_path_change_modify False"
          "fold_new (example_change ''/d'' (Some example_id_d) svn_fs_path_change_add False)"
          None, OF example_folded_d]
    by blast
qed

lemma process_changes_append:
  "process_changes cp cc (xs @ ys) pf =
     (case process_changes cp cc xs pf of
        Inl err \<Rightarrow> Inl err
      | Inr (cp', cc') \<Rightarrow> process_changes cp' cc' ys pf)"
  by (induction xs arbitrary: cp cc) (auto split: sum.splits)

lemma remove_children_child:
  "rest \<noteq> [] \<Longrightarrow> remove_children p m (p @ CHR ''/'' # rest) = None"
  by (cases rest) (auto simp: remove_children_def min_child_len_def svn_dirent_is_child_def)

lemma remove_children_self: "remove_children p m p = m p"
  by (simp add: remove_children_def min_child_len_def)

lemma process_changes_snoc:
  assumes "process_changes cp cc xs pf = Inr (folded, cc1)"
  shows "process_changes cp cc (xs @ [x]) pf =
     (case fold_change folded x cc1 of
        Inl err \<Rightarrow> Inl err
      | Inr (m, c) \<Rightarrow>
          Inr (if (kind x = svn_fs_path_change_delete \<or> kind x = svn_fs_path_change_replace)
                  \<and> \<not> pf
               then remove_children (path x) m else m, c))"
  using assms by (simp add: process_changes_append split: sum.splits)

lemma process_changes_snoc_new:
  assumes "process_changes cp cc xs pf = Inr (folded, cc1)"
    and "folded (path x) = None"
  shows "\<exists>m c. process_changes cp cc (xs @ [x]) pf = Inr (m, c)
           \<and> m (path x) = Some ((fold_new x)\<lparr>node_kind := ch_node_kind x\<rparr>)"
  using assms(2)
  by (auto simp: process_changes_snoc [OF assms(1)] fold_change_def remove_children_self Let_def)

lemma process_changes_snoc_corrupt:
  assumes "process_changes cp cc xs pf = Inr (folded, cc1)"
    and "folded (path x) = Some old_change"
    and "fold_sanity old_change x = Some err"
  shows "process_changes cp cc (xs @ [x]) pf = Inl err"
  using assms(2,3)
  by (simp add: process_changes_snoc [OF assms(1)] fold_change_existing)

lemma process_changes_snoc_merge:
  assumes "process_changes cp cc xs pf = Inr (folded, cc1)"
    and "folded (path x) = Some old_change"
    and "fold_sanity old_change x = None"
  shows "\<exists>m c. process_changes cp cc (xs @ [x]) pf = Inr (m, c)
           \<and> m (path x) = map_option (\<lambda>n. n\<lparr>node_kind := ch_node_kind x\<rparr>)
                             (fold_merge old_change x)"
  using assms(2,3)
  by (auto simp: process_changes_snoc [OF assms(1)] fold_change_existing Let_def
        remove_children_self)

text \<open>
  C3, as the code has it. Let a sequence of changed-path records have been folded,
  and let one more record be folded after it.
  \<^item> If no entry is recorded for its path, the record becomes the entry.
  \<^item> A delete or a modify that follows a delete is rejected with the corrupt error.
  \<^item> Otherwise let the record carry the node-revision id of the entry (see C10).
    A delete after an add removes the path from the folded set. A delete after a
    modify, a replace or a reset turns the entry into a delete and clears its
    copyfrom. A modify after an add, a modify, a replace or a reset ors its
    text-mod and prop-mod flags into the entry and leaves its kind alone.
  \<^item> An add that carries a node-revision id and follows a delete, or that follows a
    reset with the same id, turns the entry into a replace with the id of the add.
\<close>

theorem process_changes_fold_rules:
  assumes "process_changes changed_paths cc changes prefolded = Inr (folded, cc1)"
  shows "(folded (path change) = None \<longrightarrow>
            (\<exists>m c. process_changes changed_paths cc (changes @ [change]) prefolded = Inr (m, c)
                \<and> m (path change) = Some ((fold_new change)\<lparr>node_kind := ch_node_kind change\<rparr>)))
       \<and> (\<forall>old_change. folded (path change) = Some old_change \<longrightarrow>
            ((kind change = svn_fs_path_change_delete \<or> kind change = svn_fs_path_change_modify)
               \<and> change_kind old_change = svn_fs_path_change_delete
             \<longrightarrow> (\<exists>err. process_changes changed_paths cc (changes @ [change]) prefolded = Inl err
                    \<and> apr_err err = SVN_ERR_FS_CORRUPT))
          \<and> (\<forall>i. noderev_id change = Some i \<longrightarrow>
               (kind change = svn_fs_path_change_delete
                  \<and> change_kind old_change = svn_fs_path_change_add
                  \<and> node_rev_id old_change = Some i
                \<longrightarrow> (\<exists>m c. process_changes changed_paths cc (changes @ [change]) prefolded
                             = Inr (m, c)
                       \<and> m (path change) = None))
             \<and> (kind change = svn_fs_path_change_delete
                  \<and> (change_kind old_change = svn_fs_path_change_modify
                      \<or> change_kind old_change = svn_fs_path_change_replace
                      \<or> change_kind old_change = svn_fs_path_change_reset)
                  \<and> node_rev_id old_change = Some i
                \<longrightarrow> (\<exists>m c n. process_changes changed_paths cc (changes @ [change]) prefolded
                               = Inr (m, c)
                       \<and> m (path change) = Some n
                       \<and> change_kind n = svn_fs_path_change_delete
                       \<and> copyfrom_rev n = SVN_INVALID_REVNUM \<and> copyfrom_path n = None))
             \<and> (kind change = svn_fs_path_change_add
                  \<and> (change_kind old_change = svn_fs_path_change_delete
                      \<or> (change_kind old_change = svn_fs_path_change_reset
                          \<and> node_rev_id old_change = Some i))
                \<longrightarrow> (\<exists>m c n. process_changes changed_paths cc (changes @ [change]) prefolded
                               = Inr (m, c)
                       \<and> m (path change) = Some n
                       \<and> change_kind n = svn_fs_path_change_replace
                       \<and> node_rev_id n = Some i))
             \<and> (kind change = svn_fs_path_change_modify
                  \<and> change_kind old_change \<noteq> svn_fs_path_change_delete
                  \<and> node_rev_id old_change = Some i
                \<longrightarrow> (\<exists>m c n. process_changes changed_paths cc (changes @ [change]) prefolded
                               = Inr (m, c)
                       \<and> m (path change) = Some n
                       \<and> change_kind n = change_kind old_change
                       \<and> text_mod n = (text_mod old_change \<or> ch_text_mod change)
                       \<and> prop_mod n = (prop_mod old_change \<or> ch_prop_mod change)))))"
proof (rule conjI; intro impI allI conjI)
  assume "folded (path change) = None"
  from process_changes_snoc_new [OF assms this]
  show "\<exists>m c. process_changes changed_paths cc (changes @ [change]) prefolded = Inr (m, c)
          \<and> m (path change) = Some ((fold_new change)\<lparr>node_kind := ch_node_kind change\<rparr>)" .
next
  fix old_change
  assume o: "folded (path change) = Some old_change"
    and k: "(kind change = svn_fs_path_change_delete \<or> kind change = svn_fs_path_change_modify)
             \<and> change_kind old_change = svn_fs_path_change_delete"
  then have "\<exists>err. fold_sanity old_change change = Some err \<and> apr_err err = SVN_ERR_FS_CORRUPT"
    by (auto simp: fold_sanity_def svn_error_create_def)
  then obtain err where "fold_sanity old_change change = Some err"
    and "apr_err err = SVN_ERR_FS_CORRUPT" by blast
  with process_changes_snoc_corrupt [OF assms o]
  show "\<exists>err. process_changes changed_paths cc (changes @ [change]) prefolded = Inl err
          \<and> apr_err err = SVN_ERR_FS_CORRUPT"
    by blast
next
  fix old_change i
  assume o: "folded (path change) = Some old_change" and i: "noderev_id change = Some i"
    and k: "kind change = svn_fs_path_change_delete
            \<and> change_kind old_change = svn_fs_path_change_add
            \<and> node_rev_id old_change = Some i"
  then have "fold_sanity old_change change = None"
    by (simp add: fold_sanity_def svn_fs_fs__id_eq_def)
  from process_changes_snoc_merge [OF assms o this] k
  show "\<exists>m c. process_changes changed_paths cc (changes @ [change]) prefolded = Inr (m, c)
          \<and> m (path change) = None"
    by simp
next
  fix old_change i
  assume o: "folded (path change) = Some old_change" and i: "noderev_id change = Some i"
    and k: "kind change = svn_fs_path_change_delete
            \<and> (change_kind old_change = svn_fs_path_change_modify
                \<or> change_kind old_change = svn_fs_path_change_replace
                \<or> change_kind old_change = svn_fs_path_change_reset)
            \<and> node_rev_id old_change = Some i"
  then have "fold_sanity old_change change = None"
    by (auto simp: fold_sanity_def svn_fs_fs__id_eq_def)
  from process_changes_snoc_merge [OF assms o this] k
  show "\<exists>m c n. process_changes changed_paths cc (changes @ [change]) prefolded = Inr (m, c)
          \<and> m (path change) = Some n
          \<and> change_kind n = svn_fs_path_change_delete
          \<and> copyfrom_rev n = SVN_INVALID_REVNUM \<and> copyfrom_path n = None"
    by auto
next
  fix old_change i
  assume o: "folded (path change) = Some old_change" and i: "noderev_id change = Some i"
    and k: "kind change = svn_fs_path_change_add
            \<and> (change_kind old_change = svn_fs_path_change_delete
                \<or> (change_kind old_change = svn_fs_path_change_reset
                    \<and> node_rev_id old_change = Some i))"
  then have "fold_sanity old_change change = None"
    by (auto simp: fold_sanity_def svn_fs_fs__id_eq_def)
  from process_changes_snoc_merge [OF assms o this] k i
  show "\<exists>m c n. process_changes changed_paths cc (changes @ [change]) prefolded = Inr (m, c)
          \<and> m (path change) = Some n
          \<and> change_kind n = svn_fs_path_change_replace
          \<and> node_rev_id n = Some i"
    by auto
next
  fix old_change i
  assume o: "folded (path change) = Some old_change" and i: "noderev_id change = Some i"
    and k: "kind change = svn_fs_path_change_modify
            \<and> change_kind old_change \<noteq> svn_fs_path_change_delete
            \<and> node_rev_id old_change = Some i"
  then have "fold_sanity old_change change = None"
    by (auto simp: fold_sanity_def svn_fs_fs__id_eq_def)
  from process_changes_snoc_merge [OF assms o this] k
  show "\<exists>m c n. process_changes changed_paths cc (changes @ [change]) prefolded = Inr (m, c)
          \<and> m (path change) = Some n
          \<and> change_kind n = change_kind old_change
          \<and> text_mod n = (text_mod old_change \<or> ch_text_mod change)
          \<and> prop_mod n = (prop_mod old_change \<or> ch_prop_mod change)"
    by auto
qed

theorem process_changes_fold_rules_witness:
  "(\<exists>m c n. process_changes Map.empty None
       [example_change ''/d'' (Some example_id_d) svn_fs_path_change_add False] False = Inr (m, c)
       \<and> m ''/d'' = Some n \<and> change_kind n = svn_fs_path_change_add
       \<and> node_rev_id n = Some example_id_d)
   \<and> (\<exists>m c. process_changes Map.empty None
       [example_change ''/d'' (Some example_id_d) svn_fs_path_change_add False,
        example_change ''/d'' (Some example_id_d) svn_fs_path_change_delete False] False
         = Inr (m, c)
       \<and> m ''/d'' = None)
   \<and> (\<exists>m c n. process_changes Map.empty None
       [example_change ''/d'' (Some example_id_d) svn_fs_path_change_modify False,
        example_change ''/d'' (Some example_id_d) svn_fs_path_change_delete False] False
         = Inr (m, c)
       \<and> m ''/d'' = Some n \<and> change_kind n = svn_fs_path_change_delete
       \<and> copyfrom_rev n = SVN_INVALID_REVNUM)
   \<and> (\<exists>m c n. process_changes Map.empty None
       [example_change ''/d'' (Some example_id_d) svn_fs_path_change_delete False,
        example_change ''/d'' (Some example_id_f) svn_fs_path_change_add False] False
         = Inr (m, c)
       \<and> m ''/d'' = Some n \<and> change_kind n = svn_fs_path_change_replace
       \<and> node_rev_id n = Some example_id_f)
   \<and> (\<exists>m c n. process_changes Map.empty None
       [example_change ''/d'' (Some example_id_d) svn_fs_path_change_add False,
        example_change ''/d'' (Some example_id_d) svn_fs_path_change_modify True] False
         = Inr (m, c)
       \<and> m ''/d'' = Some n \<and> change_kind n = svn_fs_path_change_add \<and> text_mod n)
   \<and> (\<exists>err. process_changes Map.empty None
       [example_change ''/d'' (Some example_id_d) svn_fs_path_change_delete False,
        example_change ''/d'' (Some example_id_d) svn_fs_path_change_modify True] False
         = Inl err
       \<and> apr_err err = SVN_ERR_FS_CORRUPT)"
proof -
  let ?first = "\<lambda>k. example_change ''/d'' (Some example_id_d) k False"
  have e: "process_changes Map.empty None [] False = Inr (Map.empty, None)"
    by simp
  have first: "\<exists>m c. process_changes Map.empty None [?first k] False = Inr (m, c)
      \<and> m ''/d'' = Some ((fold_new (?first k))\<lparr>node_kind := svn_node_dir\<rparr>)" for k
    using process_changes_fold_rules [OF e, of "?first k"]
    by (simp add: example_change_def del: process_changes.simps)
  have a: "\<exists>m c n. process_changes Map.empty None [?first svn_fs_path_change_add] False
        = Inr (m, c)
      \<and> m ''/d'' = Some n \<and> change_kind n = svn_fs_path_change_add
      \<and> node_rev_id n = Some example_id_d"
    using first [of svn_fs_path_change_add]
    by (auto simp: fold_new_def example_change_def simp del: process_changes.simps)
  from first [of svn_fs_path_change_add] obtain ma ca
    where ra: "process_changes Map.empty None [?first svn_fs_path_change_add] False = Inr (ma, ca)"
      and ea: "ma ''/d'' = Some ((fold_new (?first svn_fs_path_change_add))\<lparr>node_kind := svn_node_dir\<rparr>)"
    by blast
  from first [of svn_fs_path_change_modify] obtain mm cm
    where rm: "process_changes Map.empty None [?first svn_fs_path_change_modify] False = Inr (mm, cm)"
      and em: "mm ''/d'' = Some ((fold_new (?first svn_fs_path_change_modify))\<lparr>node_kind := svn_node_dir\<rparr>)"
    by blast
  from first [of svn_fs_path_change_delete] obtain md cd
    where rd: "process_changes Map.empty None [?first svn_fs_path_change_delete] False = Inr (md, cd)"
      and ed: "md ''/d'' = Some ((fold_new (?first svn_fs_path_change_delete))\<lparr>node_kind := svn_node_dir\<rparr>)"
    by blast
  have b: "\<exists>m c. process_changes Map.empty None
       ([?first svn_fs_path_change_add]
        @ [example_change ''/d'' (Some example_id_d) svn_fs_path_change_delete False]) False
         = Inr (m, c)
       \<and> m ''/d'' = None"
    using process_changes_fold_rules
      [OF ra, of "example_change ''/d'' (Some example_id_d) svn_fs_path_change_delete False"] ea
    by (simp add: fold_new_def example_change_def del: process_changes.simps)
  have c: "\<exists>m c n. process_changes Map.empty None
       ([?first svn_fs_path_change_modify]
        @ [example_change ''/d'' (Some example_id_d) svn_fs_path_change_delete False]) False
         = Inr (m, c)
       \<and> m ''/d'' = Some n \<and> change_kind n = svn_fs_path_change_delete
       \<and> copyfrom_rev n = SVN_INVALID_REVNUM"
    using process_changes_fold_rules
      [OF rm, of "example_change ''/d'' (Some example_id_d) svn_fs_path_change_delete False"] em
    by (auto simp: fold_new_def example_change_def simp del: process_changes.simps)
  have d: "\<exists>m c n. process_changes Map.empty None
       ([?first svn_fs_path_change_delete]
        @ [example_change ''/d'' (Some example_id_f) svn_fs_path_change_add False]) False
         = Inr (m, c)
       \<and> m ''/d'' = Some n \<and> change_kind n = svn_fs_path_change_replace
       \<and> node_rev_id n = Some example_id_f"
    using process_changes_fold_rules
      [OF rd, of "example_change ''/d'' (Some example_id_f) svn_fs_path_change_add False"] ed
    by (auto simp: fold_new_def example_change_def simp del: process_changes.simps)
  have f: "\<exists>m c n. process_changes Map.empty None
       ([?first svn_fs_path_change_add]
        @ [example_change ''/d'' (Some example_id_d) svn_fs_path_change_modify True]) False
         = Inr (m, c)
       \<and> m ''/d'' = Some n \<and> change_kind n = svn_fs_path_change_add \<and> text_mod n"
    using process_changes_fold_rules
      [OF ra, of "example_change ''/d'' (Some example_id_d) svn_fs_path_change_modify True"] ea
    by (auto simp: fold_new_def example_change_def simp del: process_changes.simps)
  have g: "\<exists>err. process_changes Map.empty None
       ([?first svn_fs_path_change_delete]
        @ [example_change ''/d'' (Some example_id_d) svn_fs_path_change_modify True]) False
         = Inl err
       \<and> apr_err err = SVN_ERR_FS_CORRUPT"
    using process_changes_fold_rules
      [OF rd, of "example_change ''/d'' (Some example_id_d) svn_fs_path_change_modify True"] ed
    by (simp add: fold_new_def example_change_def del: process_changes.simps)
  from a b c d f g show ?thesis by simp
qed

text \<open>
  C3 as stated fails for a delete and for a modify that follow a delete, and for a
  record that carries another node-revision id than the entry. Folding a delete of
  /d and then a second delete of /d does not leave a delete entry for /d, folding a
  delete of /d and then a modify of /d does not or any flag into the entry, and
  folding an add of /d and then a delete of /d under another id does not remove /d:
  the three folds are rejected with the corrupt error.
\<close>

theorem process_changes_fold_counterexample:
  "process_changes Map.empty None
     [example_change ''/d'' (Some example_id_d) svn_fs_path_change_delete False,
      example_change ''/d'' (Some example_id_d) svn_fs_path_change_delete False] False
     = Inl (svn_error_create SVN_ERR_FS_CORRUPT
              ''Invalid change ordering: non-add change on deleted path'')
   \<and> process_changes Map.empty None
     [example_change ''/d'' (Some example_id_d) svn_fs_path_change_delete False,
      example_change ''/d'' (Some example_id_d) svn_fs_path_change_modify True] False
     = Inl (svn_error_create SVN_ERR_FS_CORRUPT
              ''Invalid change ordering: non-add change on deleted path'')
   \<and> process_changes Map.empty None
     [example_change ''/d'' (Some example_id_d) svn_fs_path_change_add False,
      example_change ''/d'' (Some example_id_f) svn_fs_path_change_delete False] False
     = Inl (svn_error_create SVN_ERR_FS_CORRUPT
              ''Invalid change ordering: new node revision ID without delete'')"
  by (simp add: fold_change_def fold_sanity_def fold_new_def example_change_def
        svn_fs_fs__id_eq_def remove_children_def min_child_len_def svn_dirent_is_child_def
        Let_def example_id_d_def example_id_f_def)

text \<open>
  C4. For every sequence of changed-path records processed without the prefolded
  flag: right after a delete or replace record for a path P has been folded, the
  folded set holds no change for any strict child of P, that is for any path made of
  P, a slash and a non-empty rest. The witness is the scenario of the spec: add /d,
  add /d/f, delete /d leaves neither /d nor /d/f.
\<close>

theorem process_changes_removes_children:
  assumes "process_changes changed_paths cc (changes @ [change]) False = Inr (changed_paths', cc')"
    and "kind change = svn_fs_path_change_delete \<or> kind change = svn_fs_path_change_replace"
    and "rest \<noteq> []"
  shows "changed_paths' (path change @ ''/'' @ rest) = None"
  using assms
  by (auto simp: process_changes_append remove_children_child split: sum.splits)

theorem process_changes_removes_children_witness:
  "\<exists>m c. process_changes Map.empty None
            [example_change ''/d'' (Some example_id_d) svn_fs_path_change_add False,
             example_change ''/d/f'' (Some example_id_f) svn_fs_path_change_add False,
             example_change ''/d'' (Some example_id_d) svn_fs_path_change_delete False]
            False = Inr (m, c)
         \<and> m ''/d/f'' = None \<and> m ''/d'' = None"
proof -
  let ?pre = "[example_change ''/d'' (Some example_id_d) svn_fs_path_change_add False,
               example_change ''/d/f'' (Some example_id_f) svn_fs_path_change_add False]"
  let ?del = "example_change ''/d'' (Some example_id_d) svn_fs_path_change_delete False"
  have "\<exists>m c. process_changes Map.empty None (?pre @ [?del]) False = Inr (m, c)
          \<and> m ''/d'' = None"
    by (simp add: fold_change_def fold_sanity_def fold_new_def example_change_def
          svn_fs_fs__id_eq_def remove_children_def min_child_len_def
          svn_dirent_is_child_def Let_def)
  then obtain m c where r: "process_changes Map.empty None (?pre @ [?del]) False = Inr (m, c)"
    and d: "m ''/d'' = None"
    by blast
  have "kind ?del = svn_fs_path_change_delete \<or> kind ?del = svn_fs_path_change_replace"
    by (simp add: example_change_def)
  from process_changes_removes_children [OF r this, of "''f''"]
  have "m ''/d/f'' = None" by (simp add: example_change_def)
  with r d show ?thesis by auto
qed

section \<open>Validation of the root node-revision: properties\<close>

text \<open>
  C9. When the new root node-revision carries the predecessor count -1 (unknown),
  validate_root_noderev makes no check of the count: its result is fixed by the
  assertion on the revision number and by the two lookups of the HEAD root alone, and
  once those succeed the root is accepted, whatever the predecessor count of the
  HEAD root is.
\<close>

theorem validate_root_noderev_unknown_count:
  assumes "predecessor_count root_noderev = -1"
  shows "validate_root_noderev fs root_noderev revnum =
     (if \<not> 0 < revnum then Some (svn_error_create SVN_ERR_ASSERTION_FAIL ''rev > 0'')
      else (case root_node_id fs (revnum - 1) of
              Inl err \<Rightarrow> Some err
            | Inr i \<Rightarrow> (case get_node_revision fs (Some i) of
                          Inl err \<Rightarrow> Some err
                        | Inr h \<Rightarrow> None)))"
  using assms by (simp add: validate_root_noderev_def Let_def split: sum.splits)

theorem validate_root_noderev_unknown_count_witness:
  "predecessor_count (example_noderev 0 6 (-1)) = -1
   \<and> predecessor_count (example_noderev 0 5 5) = 5
   \<and> get_node_revision (example_fs 0 0) (Some (example_id 5)) = Inr (example_noderev 0 5 5)
   \<and> validate_root_noderev (example_fs 0 0) (example_noderev 0 6 (-1)) 6 = None"
proof -
  have h: "predecessor_count (example_noderev 0 6 (-1)) = -1"
    by (simp add: example_noderev_def)
  show ?thesis
    using validate_root_noderev_unknown_count [OF h, of "example_fs 0 0" 6]
    by (simp add: example_fs_def example_noderev_def example_id_def)
qed






text \<open>The subtraction of the two counts wraps around for one pair of ints only, and
  there the check is passed although the counts are not one apart.\<close>

lemma validate_root_noderev_wraps:
  "validate_root_noderev
     (example_fs 0 0\<lparr>get_node_revision := \<lambda>i. Inr (example_noderev 0 5 (2 ^ 31 - 1))\<rparr>)
     (example_noderev 0 6 (- (2 ^ 31))) 6 = None"
  by (simp add: validate_root_noderev_def example_fs_def example_noderev_def example_id_def
        int_cast_def)

section \<open>Choice of the delta base: properties\<close>














text \<open>When the chain limit does not fit into an int it wraps around: with
  max-linear-deltification = 2^30 - 1 the limit is -2^31, and a possibly-shared base
  with a chain of length 0 is given up.\<close>

lemma choose_delta_base_chain_limit_wraps:
  "choose_delta_base (example_ffd 1023 (2 ^ 30 - 1)) (example_fs 1 0) (example_noderev 1 5 5)
     False = Inr None"
  by (simp add: choose_delta_base_def walk_predecessors.simps example_noderev_def
        example_ffd_def example_fs_def example_id_def example_rep_def int_cast_def
        rep_maybe_shared_def svn_fs_fs__id_rev_def)

section \<open>Lookup of a shared representation: properties\<close>

text \<open>
  C6, as the code has it. With rep-sharing enabled the lookup consults three places
  in this order: first the hash of representations written in the same uncommitted
  revision; second the index database, whose answer is checked with
  svn_fs_fs__check_rep, and a failed check ends the lookup with that error; third,
  only when both found nothing and the representation belongs to a transaction, the
  sidecar file of that transaction. The first hit is returned, with the MD5 checksum
  and the uniquifier of the new representation.
\<close>

theorem get_shared_rep_order:
  assumes "rep_sharing_allowed ffd"
  shows "(\<forall>r. reps_hash_lookup reps_hash rep = Some r \<longrightarrow>
            get_shared_rep ffd rc rep reps_hash = (Inr (add_missing_info rep (Some r)), []))
       \<and> (reps_hash_lookup reps_hash rep = None \<longrightarrow>
            (\<forall>r. get_rep_reference rc (sha1_checksum rep) = Inr (Some r) \<longrightarrow>
               get_shared_rep ffd rc rep reps_hash =
                 (case check_rep rc r of
                    Some err \<Rightarrow> (Inl err, [])
                  | None \<Rightarrow> (Inr (add_missing_info rep (Some r)), []))))
       \<and> (reps_hash_lookup reps_hash rep = None
            \<and> get_rep_reference rc (sha1_checksum rep) = Inr None \<longrightarrow>
            get_shared_rep ffd rc rep reps_hash =
              (case txn_id rep of
                 None \<Rightarrow> (Inr None, [])
               | Some txn \<Rightarrow>
                   (case txn_sha1_lookup rc txn rep of
                      Inl err \<Rightarrow> (Inl err, [])
                    | Inr r \<Rightarrow> (Inr (add_missing_info rep r), []))))"
  using assms
  by (auto simp: get_shared_rep_def rep_reference_lookup_def add_missing_info_def
        split: option.splits sum.splits)

theorem get_shared_rep_order_witness:
  "get_shared_rep (example_ffd 1023 16) (example_rc (Inr (Some example_index_rep)) True)
     example_new_rep (Some [''sha1-x'' \<mapsto> example_rep 1])
     = (Inr (add_missing_info example_new_rep (Some (example_rep 1))), [])
   \<and> get_shared_rep (example_ffd 1023 16) (example_rc (Inr (Some example_index_rep)) True)
       example_new_rep None
     = (Inr (add_missing_info example_new_rep (Some example_index_rep)), [])
   \<and> get_shared_rep (example_ffd 1023 16) (example_rc (Inr None) True) example_new_rep None
     = (Inr (add_missing_info example_new_rep (Some example_sidecar_rep)), [])"
proof -
  have a: "rep_sharing_allowed (example_ffd 1023 16)" by (simp add: example_ffd_def)
  note T = get_shared_rep_order [OF a]
  have "get_shared_rep (example_ffd 1023 16) (example_rc (Inr (Some example_index_rep)) True)
     example_new_rep (Some [''sha1-x'' \<mapsto> example_rep 1])
     = (Inr (add_missing_info example_new_rep (Some (example_rep 1))), [])"
    using T [of "Some [''sha1-x'' \<mapsto> example_rep 1]" example_new_rep
                "example_rc (Inr (Some example_index_rep)) True"]
    by (simp add: reps_hash_lookup_def example_new_rep_def)
  moreover have "get_shared_rep (example_ffd 1023 16)
       (example_rc (Inr (Some example_index_rep)) True) example_new_rep None
     = (Inr (add_missing_info example_new_rep (Some example_index_rep)), [])"
    using T [of None example_new_rep "example_rc (Inr (Some example_index_rep)) True"]
    by (simp add: reps_hash_lookup_def example_rc_def)
  moreover have "get_shared_rep (example_ffd 1023 16) (example_rc (Inr None) True)
       example_new_rep None
     = (Inr (add_missing_info example_new_rep (Some example_sidecar_rep)), [])"
    using T [of None example_new_rep "example_rc (Inr None) True"]
    by (simp add: reps_hash_lookup_def example_rc_def txn_sha1_lookup_def example_new_rep_def)
  ultimately show ?thesis by simp
qed

text \<open>
  C6 as stated fails: when the index database and the sidecar file both hold the
  SHA-1, the code returns the representation of the index (revision 3), whereas the
  order of the spec, sidecar file before index, returns that of the sidecar file.
\<close>

theorem get_shared_rep_order_counterexample:
  "get_shared_rep (example_ffd 1023 16) (example_rc (Inr (Some example_index_rep)) True)
     example_new_rep None
     = (Inr (Some (example_index_rep\<lparr>md5_checksum := Some ''md5-new'',
                                      uniquifier := Some ''0-1/_5''\<rparr>)), [])
   \<and> spec_get_shared_rep (example_ffd 1023 16) (example_rc (Inr (Some example_index_rep)) True)
       example_new_rep None
     = (Inr (Some (example_sidecar_rep\<lparr>md5_checksum := Some ''md5-new'',
                                        uniquifier := Some ''0-1/_5''\<rparr>)), [])
   \<and> revision example_index_rep \<noteq> revision example_sidecar_rep"
  by (simp add: get_shared_rep_def spec_get_shared_rep_def reps_hash_lookup_def
        rep_reference_lookup_def txn_sha1_lookup_def add_missing_info_def
        example_ffd_def example_rc_def example_new_rep_def example_index_rep_def
        example_sidecar_rep_def SVN_INVALID_REVNUM_def)




section \<open>Commit: properties\<close>

declare run_steps.simps [simp del]

lemma run_steps_Cons_None:
  "run_steps (f # fs) s = (None, s') \<longleftrightarrow> (\<exists>s1. f s = (None, s1) \<and> run_steps fs s1 = (None, s'))"
  by (auto simp: run_steps.simps split: prod.splits option.splits)

lemma run_steps_append:
  "run_steps (xs @ ys) s =
     (case run_steps xs s of (Some err, s') \<Rightarrow> (Some err, s') | (None, s') \<Rightarrow> run_steps ys s')"
  by (induction xs arbitrary: s) (auto simp: run_steps.simps split: prod.splits option.splits)

lemma keeps_run_steps: "list_all (keeps g) fs \<Longrightarrow> keeps g (run_steps fs)"
proof (induction fs)
  case Nil
  then show ?case by (simp add: keeps_def run_steps.simps)
next
  case (Cons f fs)
  then have f: "\<And>s. g (snd (f s)) = g s" and r: "\<And>s. g (snd (run_steps fs s)) = g s"
    by (simp_all add: keeps_def)
  show ?case
    unfolding keeps_def
  proof
    fix s
    obtain e s1 where fs: "f s = (e, s1)" by (cases "f s")
    with f[of s] have "g s1 = g s" by simp
    with fs r[of s1] show "g (snd (run_steps (f # fs) s)) = g s"
      by (cases e) (auto simp: run_steps.simps)
  qed
qed

lemma keeps_call: "(\<And>s. g (eff s) = g s) \<Longrightarrow> keeps g (call r eff)"
  by (simp add: keeps_def call_def split: option.splits)

lemma keeps_when_step: "keeps g f \<Longrightarrow> keeps g (when_step c f)"
  by (simp add: keeps_def when_step_def)

lemma keeps_assert: "keeps g (SVN_ERR_ASSERT c e)"
  by (simp add: keeps_def SVN_ERR_ASSERT_def)

lemma run_steps_skip:
  assumes "run_steps fs s = (None, s')" and "list_all (keeps g) (take n fs)"
  shows "\<exists>s1. g s1 = g s \<and> run_steps (drop n fs) s1 = (None, s')"
proof -
  have "run_steps (take n fs @ drop n fs) s = (None, s')" using assms(1) by simp
  then obtain s1 where a: "run_steps (take n fs) s = (None, s1)"
    and b: "run_steps (drop n fs) s1 = (None, s')"
    unfolding run_steps_append by (auto split: prod.splits option.splits)
  from keeps_run_steps[OF assms(2)] have "g (snd (run_steps (take n fs) s)) = g s"
    unfolding keeps_def by blast
  with a have "g s1 = g s" by simp
  with b show ?thesis by blast
qed

lemma call_None: "call r eff s = (None, s') \<longleftrightarrow> r = None \<and> s' = eff s"
  by (auto simp: call_def split: option.splits)

lemma write_final_current_None:
  "write_final_current K io r s = (None, s') \<Longrightarrow> s' = s\<lparr>current := r\<rparr>"
  by (auto simp: write_final_current_def call_None run_steps.simps
           split: if_splits prod.splits option.splits)

lemma keeps_purge_txn:
  assumes a: "\<And>s f. g (s\<lparr>txn_dirs := f\<rparr>) = g s"
    and b: "\<And>s f h. g (s\<lparr>proto_rev_files := f, proto_rev_root := h\<rparr>) = g s"
  shows "keeps g (svn_fs_fs__purge_txn K io t)"
proof -
  have "\<And>s. keeps g (run_steps
       [call (purge_shared_txn_err io) (\<lambda>s. s),
        call (remove_txn_dir_err io) (\<lambda>s. s\<lparr>txn_dirs := txn_dirs s - {t}\<rparr>),
        when_step (SVN_FS_FS__MIN_PROTOREVS_DIR_FORMAT K \<le> format s)
          (run_steps
             [call (remove_proto_rev_err io)
                (\<lambda>s. s\<lparr>proto_rev_files := proto_rev_files s - {t},
                        proto_rev_root := (proto_rev_root s)(t := None)\<rparr>),
              call (remove_proto_rev_lock_err io) (\<lambda>s. s)])])"
    by (intro keeps_run_steps) (simp add: keeps_call keeps_when_step keeps_run_steps a b)
  then show ?thesis
    unfolding keeps_def svn_fs_fs__purge_txn_def by blast
qed

lemma keeps_write_final_rev:
  assumes "\<And>s h. g (s\<lparr>proto_rev_root := h\<rparr>) = g s"
  shows "keeps g (write_final_rev io txn r)"
  unfolding write_final_rev_def
  by (intro keeps_run_steps) (simp add: keeps_call assms)



lemma commit_body_None:
  assumes "commit_body K io txn s = (None, s')"
  shows "current s' = current s + 1 \<and> new_rev_p s' = Some (current s + 1)
         \<and> base_rev txn = current s"
proof -
  let ?s0 = "s\<lparr>youngest_rev_cache := current s\<rparr>"
  let ?new = "current s + 1"
  let ?L = "commit_steps K io txn ?s0 ?new"
  from assms have base: "base_rev txn = current s" and L: "run_steps ?L ?s0 = (None, s')"
    by (auto simp: commit_body_def svn_fs_fs__youngest_rev_def Let_def
          split: option.splits if_splits)
  have tl: "drop 18 ?L = [write_final_current K io ?new,
               call None (\<lambda>s. s\<lparr>new_rev_p := Some ?new, youngest_rev_cache := ?new\<rparr>),
               svn_fs_fs__purge_txn K io (id_txn txn)]"
    by (simp add: commit_steps_def)
  have hd: "list_all (keeps current) (take 18 ?L)"
    by (simp add: commit_steps_def keeps_call keeps_when_step keeps_assert keeps_run_steps
          keeps_write_final_rev)
  from run_steps_skip[OF L hd] tl
  obtain s1 where c1: "current s1 = current s" and "run_steps [write_final_current K io ?new,
               call None (\<lambda>s. s\<lparr>new_rev_p := Some ?new, youngest_rev_cache := ?new\<rparr>),
               svn_fs_fs__purge_txn K io (id_txn txn)] s1 = (None, s')"
    by auto
  then obtain s2 where w: "write_final_current K io ?new s1 = (None, s2)"
    and p: "svn_fs_fs__purge_txn K io (id_txn txn)
              (s2\<lparr>new_rev_p := Some ?new, youngest_rev_cache := ?new\<rparr>) = (None, s')"
    by (auto simp: run_steps_Cons_None run_steps.simps(1) call_None)
  from write_final_current_None[OF w] have s2: "s2 = s1\<lparr>current := ?new\<rparr>" .
  have "keeps (\<lambda>s. (current s, new_rev_p s)) (svn_fs_fs__purge_txn K io (id_txn txn))"
    by (rule keeps_purge_txn) simp_all
  then have "(current (snd (svn_fs_fs__purge_txn K io (id_txn txn)
                  (s2\<lparr>new_rev_p := Some ?new, youngest_rev_cache := ?new\<rparr>))),
              new_rev_p (snd (svn_fs_fs__purge_txn K io (id_txn txn)
                  (s2\<lparr>new_rev_p := Some ?new, youngest_rev_cache := ?new\<rparr>)))) =
      (current (s2\<lparr>new_rev_p := Some ?new, youngest_rev_cache := ?new\<rparr>),
       new_rev_p (s2\<lparr>new_rev_p := Some ?new, youngest_rev_cache := ?new\<rparr>))"
    unfolding keeps_def by blast
  then have "(current s', new_rev_p s') =
      (current (s2\<lparr>new_rev_p := Some ?new, youngest_rev_cache := ?new\<rparr>),
       new_rev_p (s2\<lparr>new_rev_p := Some ?new, youngest_rev_cache := ?new\<rparr>))"
    using p by simp
  with s2 base show ?thesis by simp
qed

lemma with_write_lock_None:
  assumes "svn_fs_fs__with_write_lock K lio body s = (None, s')"
  shows "\<exists>s2. body (s\<lparr>has_write_lock := True, youngest_rev_cache := current s\<rparr>) = (None, s2)
              \<and> s' = s2\<lparr>has_write_lock := False\<rparr>"
  using assms
  by (auto simp: svn_fs_fs__with_write_lock_def with_some_lock_file_def Let_def
        split: option.splits prod.splits if_splits)

lemma commit_None:
  assumes "svn_fs_fs__commit K ffd lio io txn fs = (None, fs')"
  shows "current fs' = current fs + 1 \<and> new_rev_p fs' = Some (current fs + 1)
         \<and> base_rev txn = current fs"
proof -
  from assms obtain fs1 where l: "svn_fs_fs__with_write_lock K lio (commit_body K io txn) fs = (None, fs1)"
    and r: "when_step (rep_sharing_allowed ffd)
           (run_steps
              [call (open_rep_cache_err io) (\<lambda>s. s),
               call (write_reps_to_cache_err io)
                 (\<lambda>s. s\<lparr>rep_cache_rows := rep_cache_rows s @ write_final_rev_reps io\<rparr>)])
           fs1 = (None, fs')"
    by (auto simp: svn_fs_fs__commit_def split: prod.splits option.splits)
  have "keeps (\<lambda>s. (current s, new_rev_p s)) (when_step (rep_sharing_allowed ffd)
           (run_steps
              [call (open_rep_cache_err io) (\<lambda>s. s),
               call (write_reps_to_cache_err io)
                 (\<lambda>s. s\<lparr>rep_cache_rows := rep_cache_rows s @ write_final_rev_reps io\<rparr>)]))"
    by (simp add: keeps_when_step keeps_run_steps keeps_call)
  then have "(current (snd (when_step (rep_sharing_allowed ffd)
           (run_steps
              [call (open_rep_cache_err io) (\<lambda>s. s),
               call (write_reps_to_cache_err io)
                 (\<lambda>s. s\<lparr>rep_cache_rows := rep_cache_rows s @ write_final_rev_reps io\<rparr>)])
           fs1)), new_rev_p (snd (when_step (rep_sharing_allowed ffd)
           (run_steps
              [call (open_rep_cache_err io) (\<lambda>s. s),
               call (write_reps_to_cache_err io)
                 (\<lambda>s. s\<lparr>rep_cache_rows := rep_cache_rows s @ write_final_rev_reps io\<rparr>)])
           fs1))) = (current fs1, new_rev_p fs1)"
    unfolding keeps_def by blast
  with r have k: "current fs' = current fs1 \<and> new_rev_p fs' = new_rev_p fs1"
    by simp
  from with_write_lock_None [OF l] obtain s2
    where b: "commit_body K io txn (fs\<lparr>has_write_lock := True, youngest_rev_cache := current fs\<rparr>)
                = (None, s2)"
      and e: "fs1 = s2\<lparr>has_write_lock := False\<rparr>"
    by blast
  from commit_body_None [OF b] e k show ?thesis by simp
qed



text \<open>
  C1. Let the write lock be taken and the file current be read, both in
  with_some_lock_file and again in commit_body. If the base revision of the
  transaction differs from the value read, the commit fails with the txn-out-of-date
  error, current is unchanged, and the transaction directory, its proto-revision
  file and the caller's revision variable are as before. And whenever the commit
  returns without error, the new value of current is the old value plus one, that
  number has been stored for the caller, and the base revision was the old value.
\<close>

theorem commit_out_of_date_or_bump:
  "(mutex_lock_err lio = None \<and> get_lock_on_filesystem_err lio = None
      \<and> (SVN_FS_FS__MIN_PACKED_FORMAT K \<le> format fs \<longrightarrow> update_min_unpacked_rev_err lio = None)
      \<and> get_youngest_err lio = None \<and> youngest_rev_err io = None
      \<and> base_rev txn \<noteq> current fs
    \<longrightarrow> (\<exists>fs'. svn_fs_fs__commit K ffd lio io txn fs =
               (Some (svn_error_create SVN_ERR_FS_TXN_OUT_OF_DATE ''Transaction out of date''),
                fs')
            \<and> current fs' = current fs \<and> txn_dirs fs' = txn_dirs fs
            \<and> proto_rev_files fs' = proto_rev_files fs \<and> new_rev_p fs' = new_rev_p fs))
   \<and> (\<forall>fs'. svn_fs_fs__commit K ffd lio io txn fs = (None, fs')
         \<longrightarrow> current fs' = current fs + 1 \<and> new_rev_p fs' = Some (current fs + 1)
             \<and> base_rev txn = current fs)"
proof (rule conjI; intro impI allI)
  assume a: "mutex_lock_err lio = None \<and> get_lock_on_filesystem_err lio = None
      \<and> (SVN_FS_FS__MIN_PACKED_FORMAT K \<le> format fs \<longrightarrow> update_min_unpacked_rev_err lio = None)
      \<and> get_youngest_err lio = None \<and> youngest_rev_err io = None
      \<and> base_rev txn \<noteq> current fs"
  then have "svn_fs_fs__commit K ffd lio io txn fs =
      (Some (svn_error_create SVN_ERR_FS_TXN_OUT_OF_DATE ''Transaction out of date''),
       fs\<lparr>has_write_lock := False, youngest_rev_cache := current fs\<rparr>)"
    by (simp add: svn_fs_fs__commit_def svn_fs_fs__with_write_lock_def with_some_lock_file_def
          commit_body_def svn_fs_fs__youngest_rev_def Let_def)
  then show "\<exists>fs'. svn_fs_fs__commit K ffd lio io txn fs =
               (Some (svn_error_create SVN_ERR_FS_TXN_OUT_OF_DATE ''Transaction out of date''),
                fs')
            \<and> current fs' = current fs \<and> txn_dirs fs' = txn_dirs fs
            \<and> proto_rev_files fs' = proto_rev_files fs \<and> new_rev_p fs' = new_rev_p fs"
    by simp
next
  fix fs'
  assume "svn_fs_fs__commit K ffd lio io txn fs = (None, fs')"
  from commit_None [OF this]
  show "current fs' = current fs + 1 \<and> new_rev_p fs' = Some (current fs + 1)
        \<and> base_rev txn = current fs" .
qed

lemma example_commit_succeeds:
  "\<exists>fs'. svn_fs_fs__commit example_formats (example_ffd 1023 16) example_lock_io
            example_commit_io example_txn (example_commit_state 0) = (None, fs')
          \<and> txn_dirs fs' = {} \<and> rev_files fs' = {0, 1}"
  by (simp add: svn_fs_fs__commit_def svn_fs_fs__with_write_lock_def with_some_lock_file_def
        commit_body_def commit_steps_def svn_fs_fs__youngest_rev_def Let_def
        run_steps.simps call_def when_step_def SVN_ERR_ASSERT_def ignore_eexist_def
        write_final_current_def svn_fs_fs__purge_txn_def
        write_final_rev_def validate_root_noderev_def int_cast_def
        example_fs_def example_noderev_def example_id_def
        example_formats_def example_ffd_def example_lock_io_def example_commit_io_def
        example_txn_def example_commit_state_def insert_commute)

theorem commit_out_of_date_or_bump_witness:
  "(\<exists>fs'. svn_fs_fs__commit example_formats (example_ffd 1023 16) example_lock_io
            example_commit_io example_txn (example_commit_state 0) = (None, fs')
         \<and> current fs' = 1 \<and> new_rev_p fs' = Some 1 \<and> txn_dirs fs' = {})
   \<and> (\<exists>fs'. svn_fs_fs__commit example_formats (example_ffd 1023 16) example_lock_io
            example_commit_io example_txn (example_commit_state 1) =
              (Some (svn_error_create SVN_ERR_FS_TXN_OUT_OF_DATE ''Transaction out of date''),
               fs')
         \<and> current fs' = 1 \<and> txn_dirs fs' = {''0-1''} \<and> new_rev_p fs' = None)"
proof
  from example_commit_succeeds
  obtain fs' where r: "svn_fs_fs__commit example_formats (example_ffd 1023 16)
      example_lock_io example_commit_io example_txn (example_commit_state 0) = (None, fs')"
    and t: "txn_dirs fs' = {}"
    by blast
  from commit_out_of_date_or_bump
    [of example_lock_io example_formats "example_commit_state 0" example_commit_io
        example_txn "example_ffd 1023 16"] r
  have "current fs' = current (example_commit_state 0) + 1
        \<and> new_rev_p fs' = Some (current (example_commit_state 0) + 1)"
    by blast
  then have "current fs' = 1 \<and> new_rev_p fs' = Some 1"
    by (simp add: example_commit_state_def)
  with r t show "\<exists>fs'. svn_fs_fs__commit example_formats (example_ffd 1023 16) example_lock_io
            example_commit_io example_txn (example_commit_state 0) = (None, fs')
         \<and> current fs' = 1 \<and> new_rev_p fs' = Some 1 \<and> txn_dirs fs' = {}"
    by blast
next
  have h: "mutex_lock_err example_lock_io = None
      \<and> get_lock_on_filesystem_err example_lock_io = None
      \<and> (SVN_FS_FS__MIN_PACKED_FORMAT example_formats \<le> format (example_commit_state 1)
           \<longrightarrow> update_min_unpacked_rev_err example_lock_io = None)
      \<and> get_youngest_err example_lock_io = None \<and> youngest_rev_err example_commit_io = None
      \<and> base_rev example_txn \<noteq> current (example_commit_state 1)"
    by (simp add: example_lock_io_def example_commit_io_def example_txn_def
          example_commit_state_def)
  from commit_out_of_date_or_bump
    [of example_lock_io example_formats "example_commit_state 1" example_commit_io
        example_txn "example_ffd 1023 16"] h
  obtain fs' where "svn_fs_fs__commit example_formats (example_ffd 1023 16) example_lock_io
            example_commit_io example_txn (example_commit_state 1) =
              (Some (svn_error_create SVN_ERR_FS_TXN_OUT_OF_DATE ''Transaction out of date''),
               fs')"
    and "current fs' = current (example_commit_state 1)"
    and "txn_dirs fs' = txn_dirs (example_commit_state 1)"
    and "new_rev_p fs' = new_rev_p (example_commit_state 1)"
    by blast
  then show "\<exists>fs'. svn_fs_fs__commit example_formats (example_ffd 1023 16) example_lock_io
            example_commit_io example_txn (example_commit_state 1) =
              (Some (svn_error_create SVN_ERR_FS_TXN_OUT_OF_DATE ''Transaction out of date''),
               fs')
         \<and> current fs' = 1 \<and> txn_dirs fs' = {''0-1''} \<and> new_rev_p fs' = None"
    by (simp add: example_commit_state_def)
qed

section \<open>The root node-revision of a committed revision\<close>




section \<open>Hotcopy: properties\<close>

lemma cancel_cases:
  obtains "cancel io n s = (None, s)" | err where "cancel io n s = (Some err, s)"
  by (cases "cancel_func io"; cases "the (cancel_func io) n") (auto simp: cancel_def)

lemma hotcopy_open_dest_result:
  "\<exists>e dst'. hotcopy_open_dest io src_fs dst_fs = (e, dst')
      \<and> rev_data dst' = rev_data dst_fs \<and> current dst' = current dst_fs
      \<and> format dst' = format dst_fs \<and> uuid dst' = uuid dst_fs
      \<and> max_files_per_dir dst' = max_files_per_dir dst_fs
      \<and> min_unpacked_rev dst' = min_unpacked_rev dst_fs
      \<and> (\<not> (format src_fs = format dst_fs \<and> uuid src_fs = uuid dst_fs
              \<and> max_files_per_dir src_fs = max_files_per_dir dst_fs) \<longrightarrow> e \<noteq> None)"
  by (auto simp: hotcopy_open_dest_def run_steps.simps call_def
        hotcopy_incremental_check_preconditions_def split: option.splits)

lemma hotcopy_body_fails:
  assumes "current src_fs < current dst_fs
           \<or> effective_min_unpacked_rev K src_fs src_fs < effective_min_unpacked_rev K src_fs dst_fs"
  shows "\<exists>err dst'. hotcopy_body K io src_fs True dst_fs = (Some err, dst')
           \<and> rev_data dst' = rev_data dst_fs \<and> current dst' = current dst_fs"
proof -
  obtain e0 d0 where s0: "run_steps
            [when_step (SVN_FS_FS__MIN_CONFIG_FILE K \<le> format src_fs)
               (call (config_copy_err io) (\<lambda>s. s\<lparr>has_config := True\<rparr>)),
             cancel io 2,
             call (get_youngest_src_err io) (\<lambda>s. s)] dst_fs = (e0, d0)"
    by (cases "run_steps
            [when_step (SVN_FS_FS__MIN_CONFIG_FILE K \<le> format src_fs)
               (call (config_copy_err io) (\<lambda>s. s\<lparr>has_config := True\<rparr>)),
             cancel io 2,
             call (get_youngest_src_err io) (\<lambda>s. s)] dst_fs")
  have k0: "rev_data d0 = rev_data dst_fs \<and> current d0 = current dst_fs
            \<and> min_unpacked_rev d0 = min_unpacked_rev dst_fs"
    using s0
    by (auto simp: run_steps.simps call_def when_step_def cancel_def
          split: option.splits if_splits prod.splits)
  show ?thesis
  proof (cases e0)
    case (Some err)
    with s0 k0 show ?thesis by (simp add: hotcopy_body_def)
  next
    case None
    note e0 = None
    show ?thesis
    proof (cases "get_youngest_dst_err io")
      case (Some err)
      with s0 e0 k0 show ?thesis by (simp add: hotcopy_body_def Let_def)
    next
      case None
      note gy = None
      show ?thesis
      proof (cases "current src_fs < current dst_fs")
        case True
        with s0 e0 k0 gy show ?thesis by (simp add: hotcopy_body_def Let_def)
      next
        case False
        with assms have mu: "effective_min_unpacked_rev K src_fs src_fs
            < effective_min_unpacked_rev K src_fs dst_fs" by simp
        then have packed: "SVN_FS_FS__MIN_PACKED_FORMAT K \<le> format src_fs"
          and lt: "min_unpacked_rev src_fs < min_unpacked_rev dst_fs"
          by (auto simp: effective_min_unpacked_rev_def split: if_splits)
        show ?thesis
        proof (cases rule: cancel_cases [of io 3 d0, case_names ok err])
          case err
          with s0 e0 k0 gy False show ?thesis by (auto simp: hotcopy_body_def Let_def)
        next
          case ok
          with s0 e0 k0 gy False packed lt show ?thesis
            by (auto simp: hotcopy_body_def Let_def run_steps.simps call_def
                  split: option.splits)
        qed
      qed
    qed
  qed
qed

lemma hotcopy_locked_body_fails:
  assumes "current src_fs < current dst_fs
           \<or> effective_min_unpacked_rev K src_fs src_fs < effective_min_unpacked_rev K src_fs dst_fs"
  shows "\<exists>err dst'. svn_fs_fs__with_write_lock K lio (hotcopy_body K io src_fs True) dst_fs
             = (Some err, dst')
           \<and> rev_data dst' = rev_data dst_fs \<and> current dst' = current dst_fs"
proof -
  let ?d = "dst_fs\<lparr>has_write_lock := True, youngest_rev_cache := current dst_fs\<rparr>"
  have "current src_fs < current ?d
        \<or> effective_min_unpacked_rev K src_fs src_fs < effective_min_unpacked_rev K src_fs ?d"
    using assms by (auto simp: effective_min_unpacked_rev_def split: if_splits)
  from hotcopy_body_fails [OF this, of io]
  obtain err d' where b: "hotcopy_body K io src_fs True ?d = (Some err, d')"
    and k: "rev_data d' = rev_data dst_fs" "current d' = current dst_fs"
    by auto
  show ?thesis
    using b k
    by (auto simp: svn_fs_fs__with_write_lock_def with_some_lock_file_def Let_def
          split: option.splits)
qed

text \<open>
  C8. Let an incremental hotcopy find a destination that exists, and let one of the
  five requirements fail: equal formats, equal UUIDs, equal shard sizes, SRC.youngest
  at least DST.youngest, SRC.min-unpacked-rev at least DST.min-unpacked-rev (both
  taken as 0 when the format has no packing). Then the hotcopy returns an error, and
  the destination holds the same revision data and the same current as before: the
  copying of revisions has not begun. When every call made up to the checks
  succeeds, the error is that of the first requirement that fails, in the order
  above: uuid-mismatch when the formats agree and the UUIDs differ,
  unsupported-feature in every other case.
\<close>

theorem hotcopy_incremental_preconditions:
  assumes "\<not> spec_hotcopy_preconditions K src_fs dst_fs"
  shows "(\<exists>err dst'. svn_fs_fs__hotcopy K lio io src_fs (Some dst_fs) True = (Some err, Some dst')
            \<and> rev_data dst' = rev_data dst_fs \<and> current dst' = current dst_fs)
       \<and> (hotcopy_calls_succeed K lio io src_fs dst_fs \<longrightarrow>
            (\<exists>err dst'. svn_fs_fs__hotcopy K lio io src_fs (Some dst_fs) True
                          = (Some err, Some dst')
               \<and> apr_err err =
                   (if format src_fs = format dst_fs \<and> uuid src_fs \<noteq> uuid dst_fs
                    then SVN_ERR_RA_UUID_MISMATCH else SVN_ERR_UNSUPPORTED_FEATURE)))"
proof
  show "\<exists>err dst'. svn_fs_fs__hotcopy K lio io src_fs (Some dst_fs) True = (Some err, Some dst')
            \<and> rev_data dst' = rev_data dst_fs \<and> current dst' = current dst_fs"
  proof (cases "run_steps [cancel io 0, call (open_src_err io) (\<lambda>s. s)] (Some dst_fs)
                  = (None, Some dst_fs)")
    case False
    then obtain err where "run_steps [cancel io 0, call (open_src_err io) (\<lambda>s. s)] (Some dst_fs)
                  = (Some err, Some dst_fs)"
      by (auto simp: run_steps.simps call_def cancel_def split: option.splits)
    then show ?thesis by (simp add: svn_fs_fs__hotcopy_def)
  next
    case True
    note pre = True
    show ?thesis
    proof (cases "check_path_format_err io")
      case (Some err)
      with pre show ?thesis by (simp add: svn_fs_fs__hotcopy_def)
    next
      case None
      note cp = None
      from hotcopy_open_dest_result [of io src_fs dst_fs]
      obtain e d1 where od: "hotcopy_open_dest io src_fs dst_fs = (e, d1)"
        and k1: "rev_data d1 = rev_data dst_fs" "current d1 = current dst_fs"
          "format d1 = format dst_fs" "uuid d1 = uuid dst_fs"
          "max_files_per_dir d1 = max_files_per_dir dst_fs"
          "min_unpacked_rev d1 = min_unpacked_rev dst_fs"
        and v1: "\<not> (format src_fs = format dst_fs \<and> uuid src_fs = uuid dst_fs
              \<and> max_files_per_dir src_fs = max_files_per_dir dst_fs) \<longrightarrow> e \<noteq> None"
        by blast
      show ?thesis
      proof (cases e)
        case (Some err)
        with pre cp od k1 show ?thesis by (simp add: svn_fs_fs__hotcopy_def)
      next
        case None
        with v1 assms have viol: "current src_fs < current d1
           \<or> effective_min_unpacked_rev K src_fs src_fs < effective_min_unpacked_rev K src_fs d1"
          using k1 by (auto simp: spec_hotcopy_preconditions_def effective_min_unpacked_rev_def)
        show ?thesis
        proof (cases rule: cancel_cases [of io 1 d1, case_names ok err])
          case err
          with pre cp od None k1 show ?thesis by (auto simp: svn_fs_fs__hotcopy_def)
        next
          case ok
          from hotcopy_locked_body_fails [OF viol, of lio io]
          obtain err d2 where "svn_fs_fs__with_write_lock K lio (hotcopy_body K io src_fs True) d1
             = (Some err, d2)" "rev_data d2 = rev_data d1" "current d2 = current d1"
            by blast
          with pre cp od None k1 ok show ?thesis by (simp add: svn_fs_fs__hotcopy_def)
        qed
      qed
    qed
  qed
next
  show "hotcopy_calls_succeed K lio io src_fs dst_fs \<longrightarrow>
            (\<exists>err dst'. svn_fs_fs__hotcopy K lio io src_fs (Some dst_fs) True
                          = (Some err, Some dst')
               \<and> apr_err err =
                   (if format src_fs = format dst_fs \<and> uuid src_fs \<noteq> uuid dst_fs
                    then SVN_ERR_RA_UUID_MISMATCH else SVN_ERR_UNSUPPORTED_FEATURE))"
  proof
    assume ok: "hotcopy_calls_succeed K lio io src_fs dst_fs"
    then have c: "cancel io n s = (None, s)" if "n \<le> 3" for n and s :: "'s"
    proof -
      from that have "n = 0 \<or> n = 1 \<or> n = 2 \<or> n = 3" by auto
      with ok show ?thesis
        by (auto simp: hotcopy_calls_succeed_def cancel_def split: option.splits)
    qed
    from ok have o: "open_src_err io = None" "check_path_format_err io = None"
      "open_dst_err io = None" "initialize_caches_err io = None"
      "mutex_lock_err lio = None" "get_lock_on_filesystem_err lio = None"
      "update_min_unpacked_rev_err lio = None" "get_youngest_err lio = None"
      "config_copy_err io = None" "get_youngest_src_err io = None"
      "get_youngest_dst_err io = None" "read_min_unpacked_src_err io = None"
      "read_min_unpacked_dst_err io = None"
      by (simp_all add: hotcopy_calls_succeed_def)
    from assms show "\<exists>err dst'. svn_fs_fs__hotcopy K lio io src_fs (Some dst_fs) True
                          = (Some err, Some dst')
               \<and> apr_err err =
                   (if format src_fs = format dst_fs \<and> uuid src_fs \<noteq> uuid dst_fs
                    then SVN_ERR_RA_UUID_MISMATCH else SVN_ERR_UNSUPPORTED_FEATURE)"
      by (auto simp: spec_hotcopy_preconditions_def effective_min_unpacked_rev_def
            svn_fs_fs__hotcopy_def hotcopy_open_dest_def
            hotcopy_incremental_check_preconditions_def hotcopy_body_def
            svn_fs_fs__with_write_lock_def with_some_lock_file_def
            run_steps.simps call_def when_step_def c o Let_def svn_error_create_def
            split: if_splits)
  qed
qed

theorem hotcopy_incremental_preconditions_witness:
  "(\<exists>err dst'. svn_fs_fs__hotcopy example_formats example_lock_io example_hotcopy_io example_src
        (Some (example_dst 4 ''u-1'' 1000 2 0)) True = (Some err, Some dst')
      \<and> apr_err err = SVN_ERR_UNSUPPORTED_FEATURE \<and> rev_data dst' = {0, 1, 2})
   \<and> (\<exists>err dst'. svn_fs_fs__hotcopy example_formats example_lock_io example_hotcopy_io example_src
        (Some (example_dst 6 ''u-2'' 1000 2 0)) True = (Some err, Some dst')
      \<and> apr_err err = SVN_ERR_RA_UUID_MISMATCH \<and> rev_data dst' = {0, 1, 2})
   \<and> (\<exists>err dst'. svn_fs_fs__hotcopy example_formats example_lock_io example_hotcopy_io example_src
        (Some (example_dst 6 ''u-1'' 500 2 0)) True = (Some err, Some dst')
      \<and> apr_err err = SVN_ERR_UNSUPPORTED_FEATURE \<and> rev_data dst' = {0, 1, 2})
   \<and> (\<exists>err dst'. svn_fs_fs__hotcopy example_formats example_lock_io example_hotcopy_io example_src
        (Some (example_dst 6 ''u-1'' 1000 12 0)) True = (Some err, Some dst')
      \<and> apr_err err = SVN_ERR_UNSUPPORTED_FEATURE \<and> rev_data dst' = {0, 1, 2})
   \<and> (\<exists>err dst'. svn_fs_fs__hotcopy example_formats example_lock_io example_hotcopy_io example_src
        (Some (example_dst 6 ''u-1'' 1000 2 1000)) True = (Some err, Some dst')
      \<and> apr_err err = SVN_ERR_UNSUPPORTED_FEATURE \<and> rev_data dst' = {0, 1, 2})"
proof -
  have ok: "hotcopy_calls_succeed example_formats example_lock_io example_hotcopy_io
              example_src (example_dst f u sh y m)" for f u sh y m
    by (simp add: hotcopy_calls_succeed_def example_lock_io_def example_hotcopy_io_def)
  have use: "\<exists>err dst'. svn_fs_fs__hotcopy example_formats example_lock_io example_hotcopy_io
        example_src (Some (example_dst f u sh y m)) True = (Some err, Some dst')
      \<and> apr_err err = (if f = 6 \<and> u \<noteq> ''u-1'' then SVN_ERR_RA_UUID_MISMATCH
                        else SVN_ERR_UNSUPPORTED_FEATURE)
      \<and> rev_data dst' = {0, 1, 2}"
    if "\<not> spec_hotcopy_preconditions example_formats example_src (example_dst f u sh y m)"
    for f u sh y m
  proof -
    from hotcopy_incremental_preconditions
      [OF that, of example_lock_io example_hotcopy_io] ok [of f u sh y m]
    obtain err dst' err2 dst2 where
      a: "svn_fs_fs__hotcopy example_formats example_lock_io example_hotcopy_io
            example_src (Some (example_dst f u sh y m)) True = (Some err, Some dst')"
        "rev_data dst' = rev_data (example_dst f u sh y m)"
      and b: "svn_fs_fs__hotcopy example_formats example_lock_io example_hotcopy_io
            example_src (Some (example_dst f u sh y m)) True = (Some err2, Some dst2)"
        "apr_err err2 =
           (if format example_src = format (example_dst f u sh y m)
               \<and> uuid example_src \<noteq> uuid (example_dst f u sh y m)
            then SVN_ERR_RA_UUID_MISMATCH else SVN_ERR_UNSUPPORTED_FEATURE)"
      by blast
    from a(1) b(1) have "err2 = err" by simp
    with a b(2) show ?thesis
      by (auto simp: example_src_def example_dst_def)
  qed
  have v: "\<not> spec_hotcopy_preconditions example_formats example_src (example_dst 4 ''u-1'' 1000 2 0)"
    "\<not> spec_hotcopy_preconditions example_formats example_src (example_dst 6 ''u-2'' 1000 2 0)"
    "\<not> spec_hotcopy_preconditions example_formats example_src (example_dst 6 ''u-1'' 500 2 0)"
    "\<not> spec_hotcopy_preconditions example_formats example_src (example_dst 6 ''u-1'' 1000 12 0)"
    "\<not> spec_hotcopy_preconditions example_formats example_src (example_dst 6 ''u-1'' 1000 2 1000)"
    by (simp_all add: spec_hotcopy_preconditions_def effective_min_unpacked_rev_def
          example_formats_def example_src_def example_dst_def)
  from use [OF v(1)] use [OF v(2)] use [OF v(3)] use [OF v(4)] use [OF v(5)]
  show ?thesis by simp
qed

text \<open>With all five requirements met and every call succeeding, the same hotcopy
  goes through and brings the destination to revision 10.\<close>

lemma example_hotcopy_succeeds:
  "spec_hotcopy_preconditions example_formats example_src (example_dst 6 ''u-1'' 1000 2 0)
   \<and> svn_fs_fs__hotcopy example_formats example_lock_io example_hotcopy_io example_src
        (Some (example_dst 6 ''u-1'' 1000 2 0)) True
     = (None, Some ((example_dst 6 ''u-1'' 1000 10 0)
                      \<lparr>youngest_rev_cache := 2, rev_data := {0..10}\<rparr>))"
  by (simp add: spec_hotcopy_preconditions_def effective_min_unpacked_rev_def
        svn_fs_fs__hotcopy_def hotcopy_open_dest_def
        hotcopy_incremental_check_preconditions_def hotcopy_body_def
        svn_fs_fs__with_write_lock_def with_some_lock_file_def
        run_steps.simps call_def when_step_def cancel_def Let_def
        example_formats_def example_lock_io_def example_hotcopy_io_def
        example_src_def example_dst_def)

end
